theory Spec2Isabelle
  imports Main "HOL-Library.Word" "HOL-Library.Signed_Division" "HOL-Library.Monad_Syntax"
begin

unbundle bit_operations_syntax

section \<open>wincurses: the data model\<close>

text \<open>
  The library is C for the Windows console (\<^verbatim>\<open>wincurses.c\<close>, \<^verbatim>\<open>wincurses.h\<close>).
  Machine integers keep their width: an \<^verbatim>\<open>int\<close> is a 32-bit word read with \<open>sint\<close>,
  a \<^verbatim>\<open>SHORT\<close> a 16-bit word read with \<open>sint\<close>, a \<^verbatim>\<open>WORD\<close> a 16-bit and a
  \<^verbatim>\<open>DWORD\<close> a 32-bit word, a \<^verbatim>\<open>char\<close> (the library's \<^verbatim>\<open>chtype\<close>) a signed 8-bit
  word. A \<^verbatim>\<open>HANDLE\<close> is a number; a \<^verbatim>\<open>WINDOW *\<close> is an address, \<open>0\<close> for
  \<^verbatim>\<open>NULL\<close>.

  Every operation that touches memory returns an \<open>option\<close>: \<open>None\<close> stands for a
  call that does not return normally (an address that holds no window is dereferenced,
  an array is indexed outside its bounds, a remainder by zero is taken, or a blocking read
  waits for input that never comes).
\<close>

type_synonym cint = "32 word"
type_synonym SHORT = "16 word"
type_synonym WORD = "16 word"
type_synonym DWORD = "32 word"
type_synonym chtype = "8 word"
type_synonym HANDLE = nat
type_synonym win_ptr = nat

definition ERR :: cint where "ERR = 0"
definition OK :: cint where "OK = 1"
definition FALSE :: cint where "FALSE = 0"
definition TRUE :: cint where "TRUE = 1"
definition NULL :: win_ptr where "NULL = 0"

definition HAS_COLORS :: cint where "HAS_COLORS = TRUE"
definition CAN_CHANGE_COLOR :: cint where "CAN_CHANGE_COLOR = FALSE"
definition NUM_COLORS :: cint where "NUM_COLORS = 8"
definition COLOR_BITS :: nat where "COLOR_BITS = 6"
definition MAX_NUM_PAIRS :: cint where "MAX_NUM_PAIRS = 64"

text \<open>The global and the per-window flag masks (\<^verbatim>\<open>1 << _WC_ECHO\<close> and so on).\<close>

definition WC_ECHO :: "32 word" where "WC_ECHO = push_bit 0 1"
definition WC_COLOR :: "32 word" where "WC_COLOR = push_bit 1 1"
definition WC_WKEYPAD :: "32 word" where "WC_WKEYPAD = push_bit 0 1"
definition WC_NODELAY :: "32 word" where "WC_NODELAY = push_bit 1 1"

text \<open>The console's structures, with the members the library uses.\<close>

record COORD =
  X :: SHORT
  Y :: SHORT

record SMALL_RECT =
  Left :: SHORT
  Top :: SHORT
  Right :: SHORT
  Bottom :: SHORT

text \<open>
  \<^verbatim>\<open>CHAR_INFO.Char\<close> is a union of \<^verbatim>\<open>AsciiChar\<close> and \<^verbatim>\<open>UnicodeChar\<close>; the library
  stores through \<^verbatim>\<open>UnicodeChar\<close> last, so the cell keeps that member.
\<close>

record CHAR_INFO =
  UnicodeChar :: "16 word"
  Attributes :: WORD

record INPUT_RECORD =
  EventType :: WORD
  bKeyDown :: cint
  AsciiChar :: chtype
  wVirtualKeyCode :: WORD

text \<open>
  \<^verbatim>\<open>color_t\<close> and \<^verbatim>\<open>colorinfo_t\<close>: the members \<^verbatim>\<open>r\<close>, \<^verbatim>\<open>g\<close>, \<^verbatim>\<open>b\<close> and
  \<^verbatim>\<open>f\<close>, \<^verbatim>\<open>b\<close> carry a prefix here, since two records cannot share a field name.
\<close>

record color_t =
  color_r :: SHORT
  color_g :: SHORT
  color_b :: SHORT

record colorinfo_t =
  pair_f :: SHORT
  pair_b :: SHORT

text \<open>
  \<^verbatim>\<open>WINDOW\<close> (\<^verbatim>\<open>struct window_t\<close>), member by member; \<^verbatim>\<open>hcon\<close> is the array of the
  two screen-buffer handles.
\<close>

record WINDOW =
  w_rect :: SMALL_RECT
  w_size :: COORD
  w_cur :: COORD
  w_hcon :: "HANDLE list"
  w_prim :: cint
  w_bbuf :: cint
  w_flags :: "32 word"
  w_attrs :: WORD

text \<open>
  The cells of a screen buffer, and of a caller's array of \<^verbatim>\<open>CHAR_INFO\<close>, are
  addressed by (row, column).
\<close>

type_synonym grid = "int \<times> int \<Rightarrow> CHAR_INFO"

text \<open>
  Modelled from the spec: the console backend (section 6, the Windows console API), which
  is no part of the repository. It holds the screen buffers that are alive, by handle;
  which of them is displayed; each one's cursor position; the mode bits of the input
  handles; and the input events that are pending, oldest first. A call on a handle that
  is not alive fails, and that is the only way a call fails. A screen buffer has a size
  and one cell for each row and column within it, rows and columns counted from 0; what
  \<open>sb_cells\<close> gives outside the size stands for nothing and is never read or written.
\<close>

record screen_buffer =
  sb_size :: COORD
  sb_cells :: grid

record console =
  con_screen :: "HANDLE \<rightharpoonup> screen_buffer"
  con_active :: HANDLE
  con_cursor :: "HANDLE \<rightharpoonup> COORD"
  con_mode :: "HANDLE \<rightharpoonup> DWORD"
  con_input :: "INPUT_RECORD list"

text \<open>
  The process-wide state of \<^verbatim>\<open>wincurses.h\<close>: the globals the modelled functions
  use, the \<^verbatim>\<open>WINDOW\<close> objects in memory by address, the console, and what freshly
  allocated memory holds (\<^verbatim>\<open>malloc\<close> does not initialise it; an allocation itself is
  taken to succeed).
\<close>

record wc_state =
  stdscr :: win_ptr
  wins :: "win_ptr \<rightharpoonup> WINDOW"
  hstdin :: HANDLE
  flags :: "32 word"
  COLORS :: cint
  COLOR_PAIRS :: cint
  colors :: "color_t list"
  color_pairs :: "colorinfo_t list"
  con :: console
  fresh_mem :: grid

text \<open>
  Reading a C array: \<open>None\<close> outside its bounds, where the C program has no defined
  behaviour.
\<close>

definition array_at :: "'a list \<Rightarrow> int \<Rightarrow> 'a option" where
  "array_at xs i = (if 0 \<le> i \<and> i < int (length xs) then Some (xs ! nat i) else None)"

text \<open>The conversion of an \<^verbatim>\<open>int\<close> to a \<^verbatim>\<open>SHORT\<close> keeps the low 16 bits.\<close>

definition to_SHORT :: "cint \<Rightarrow> SHORT" where
  "to_SHORT v = ucast v"

section \<open>Moving the cursor\<close>

text \<open>
  \<^verbatim>\<open>wmove\<close>: the bounds test compares the \<^verbatim>\<open>int\<close> arguments with the window's
  \<^verbatim>\<open>SHORT\<close> size, promoted to \<^verbatim>\<open>int\<close>; there is no \<^verbatim>\<open>NULL\<close> check.
\<close>

definition wmove :: "wc_state \<Rightarrow> win_ptr \<Rightarrow> cint \<Rightarrow> cint \<Rightarrow> (cint \<times> wc_state) option" where
  "wmove st win y x = do {
     w \<leftarrow> wins st win;
     if sint (Y (w_size w)) \<le> sint y \<or> sint (X (w_size w)) \<le> sint x \<or> sint y < 0 \<or> sint x < 0
     then Some (ERR, st)
     else Some (OK, st\<lparr>wins := (wins st)(win \<mapsto> w\<lparr>w_cur := \<lparr>X = to_SHORT x, Y = to_SHORT y\<rparr>\<rparr>)\<rparr>)
   }"

definition move :: "wc_state \<Rightarrow> cint \<Rightarrow> cint \<Rightarrow> (cint \<times> wc_state) option" where
  "move st y x = wmove st (stdscr st) y x"

text \<open>The cursor of the window at an address, as (row, column) numbers.\<close>

definition cursor_of :: "wc_state \<Rightarrow> win_ptr \<Rightarrow> (int \<times> int) option" where
  "cursor_of st win = map_option (\<lambda>w. (sint (Y (w_cur w)), sint (X (w_cur w)))) (wins st win)"

section \<open>The console backend\<close>

text \<open>
  Modelled from the spec: the backend's calls (section 6), with the arguments the library
  passes. Each returns \<open>None\<close> where the Windows call returns \<^verbatim>\<open>FALSE\<close>.

  A bulk transfer moves the cells of a region of a screen buffer to or from a caller's
  array of the given size, starting in the array at the given origin. Only cells of the
  region that the screen buffer has, and that fit the array, are moved: a region that lies
  outside the buffer moves nothing. \<open>region_cell\<close> gives, for a cell of the screen
  buffer, the cell of the array that goes with it; \<open>array_cell\<close> is the same
  correspondence read from the array's side. The call writes the rectangle it has used
  back through the region pointer: \<open>used_region\<close>, whose bottom is above its top, or
  whose right is left of its left, when nothing was moved.
\<close>

definition in_buffer :: "COORD \<Rightarrow> int \<times> int \<Rightarrow> bool" where
  "in_buffer ext p = (case p of (r, c) \<Rightarrow> 0 \<le> r \<and> r < sint (Y ext) \<and> 0 \<le> c \<and> c < sint (X ext))"

definition region_cell ::
    "COORD \<Rightarrow> COORD \<Rightarrow> COORD \<Rightarrow> SMALL_RECT \<Rightarrow> int \<times> int \<Rightarrow> (int \<times> int) option" where
  "region_cell ext dims orig rect p = (case p of (r, c) \<Rightarrow>
     (let br = sint (Y orig) + (r - sint (Top rect)); bc = sint (X orig) + (c - sint (Left rect))
      in if sint (Top rect) \<le> r \<and> r \<le> sint (Bottom rect) \<and> sint (Left rect) \<le> c \<and> c \<le> sint (Right rect)
            \<and> in_buffer ext (r, c)
            \<and> 0 \<le> br \<and> br < sint (Y dims) \<and> 0 \<le> bc \<and> bc < sint (X dims)
         then Some (br, bc) else None))"

definition array_cell ::
    "COORD \<Rightarrow> COORD \<Rightarrow> COORD \<Rightarrow> SMALL_RECT \<Rightarrow> int \<times> int \<Rightarrow> (int \<times> int) option" where
  "array_cell ext dims orig rect q = (case q of (br, bc) \<Rightarrow>
     (let r = sint (Top rect) + (br - sint (Y orig)); c = sint (Left rect) + (bc - sint (X orig))
      in if sint (Top rect) \<le> r \<and> r \<le> sint (Bottom rect) \<and> sint (Left rect) \<le> c \<and> c \<le> sint (Right rect)
            \<and> in_buffer ext (r, c)
            \<and> 0 \<le> br \<and> br < sint (Y dims) \<and> 0 \<le> bc \<and> bc < sint (X dims)
         then Some (r, c) else None))"

definition used_region :: "COORD \<Rightarrow> COORD \<Rightarrow> COORD \<Rightarrow> SMALL_RECT \<Rightarrow> SMALL_RECT" where
  "used_region ext dims orig rect =
     \<lparr>Left = word_of_int (max (sint (Left rect)) (max 0 (sint (Left rect) - sint (X orig)))),
      Top = word_of_int (max (sint (Top rect)) (max 0 (sint (Top rect) - sint (Y orig)))),
      Right = word_of_int (min (sint (Right rect))
                (min (sint (X ext) - 1) (sint (Left rect) + (sint (X dims) - 1 - sint (X orig))))),
      Bottom = word_of_int (min (sint (Bottom rect))
                (min (sint (Y ext) - 1) (sint (Top rect) + (sint (Y dims) - 1 - sint (Y orig)))))\<rparr>"

definition ReadConsoleOutput ::
    "console \<Rightarrow> HANDLE \<Rightarrow> grid \<Rightarrow> COORD \<Rightarrow> COORD \<Rightarrow> SMALL_RECT \<Rightarrow> (grid \<times> SMALL_RECT) option" where
  "ReadConsoleOutput c h buf dims orig rect =
     (case con_screen c h of
        None \<Rightarrow> None
      | Some b \<Rightarrow>
          Some (\<lambda>q. case array_cell (sb_size b) dims orig rect q of
                       None \<Rightarrow> buf q
                     | Some p \<Rightarrow> sb_cells b p,
                used_region (sb_size b) dims orig rect))"

definition WriteConsoleOutput ::
    "console \<Rightarrow> HANDLE \<Rightarrow> grid \<Rightarrow> COORD \<Rightarrow> COORD \<Rightarrow> SMALL_RECT \<Rightarrow> (console \<times> SMALL_RECT) option" where
  "WriteConsoleOutput c h buf dims orig rect =
     (case con_screen c h of
        None \<Rightarrow> None
      | Some b \<Rightarrow>
          Some (c\<lparr>con_screen := (con_screen c)
                  (h \<mapsto> b\<lparr>sb_cells := (\<lambda>p. case region_cell (sb_size b) dims orig rect p of
                                              None \<Rightarrow> sb_cells b p
                                            | Some q \<Rightarrow> buf q)\<rparr>)\<rparr>,
                used_region (sb_size b) dims orig rect))"

definition SetConsoleActiveScreenBuffer :: "console \<Rightarrow> HANDLE \<Rightarrow> console option" where
  "SetConsoleActiveScreenBuffer c h =
     (case con_screen c h of None \<Rightarrow> None | Some g \<Rightarrow> Some (c\<lparr>con_active := h\<rparr>))"

definition SetConsoleCursorPosition :: "console \<Rightarrow> HANDLE \<Rightarrow> COORD \<Rightarrow> console option" where
  "SetConsoleCursorPosition c h pos =
     (case con_screen c h of
        None \<Rightarrow> None
      | Some g \<Rightarrow> Some (c\<lparr>con_cursor := (con_cursor c)(h \<mapsto> pos)\<rparr>))"

definition GetConsoleMode :: "console \<Rightarrow> HANDLE \<Rightarrow> DWORD option" where
  "GetConsoleMode c h = con_mode c h"

definition SetConsoleMode :: "console \<Rightarrow> HANDLE \<Rightarrow> DWORD \<Rightarrow> console option" where
  "SetConsoleMode c h m =
     (case con_mode c h of None \<Rightarrow> None | Some old \<Rightarrow> Some (c\<lparr>con_mode := (con_mode c)(h \<mapsto> m)\<rparr>))"

text \<open>
  A call whose result the library does not look at: the console is as the call left
  it, or as it was when the call failed.
\<close>

definition ignoring_failure :: "console \<Rightarrow> console option \<Rightarrow> console" where
  "ignoring_failure c r = (case r of None \<Rightarrow> c | Some c' \<Rightarrow> c')"

text \<open>The constants of \<^verbatim>\<open>windows.h\<close> that the library names, with the SDK's values.\<close>

definition FOREGROUND_BLUE :: cint where "FOREGROUND_BLUE = 0x1"
definition FOREGROUND_GREEN :: cint where "FOREGROUND_GREEN = 0x2"
definition FOREGROUND_RED :: cint where "FOREGROUND_RED = 0x4"
definition FOREGROUND_INTENSITY :: WORD where "FOREGROUND_INTENSITY = 0x8"
definition BACKGROUND_INTENSITY :: WORD where "BACKGROUND_INTENSITY = 0x80"
definition COMMON_LVB_REVERSE_VIDEO :: WORD where "COMMON_LVB_REVERSE_VIDEO = 0x4000"
definition COMMON_LVB_UNDERSCORE :: WORD where "COMMON_LVB_UNDERSCORE = 0x8000"
definition KEY_EVENT :: WORD where "KEY_EVENT = 0x1"
definition ENABLE_PROCESSED_INPUT :: DWORD where "ENABLE_PROCESSED_INPUT = 0x1"
definition ENABLE_LINE_INPUT :: DWORD where "ENABLE_LINE_INPUT = 0x2"

section \<open>Writing characters\<close>

text \<open>
  \<^verbatim>\<open>waddch\<close>. The cell is written through a one-cell array (size (1, 1), origin
  (0, 0)) into the region that starts at the cursor, a cell of the back buffer counted
  from the buffer's origin; the region is a local variable, and what the call writes back
  to it is not used. The cursor arithmetic is C's: the
  operands are promoted to \<^verbatim>\<open>int\<close>, \<^verbatim>\<open>%\<close> truncates towards zero and traps on a zero
  divisor, the stores convert back to \<^verbatim>\<open>SHORT\<close>.
\<close>

definition waddch :: "wc_state \<Rightarrow> win_ptr \<Rightarrow> chtype \<Rightarrow> (cint \<times> wc_state) option" where
  "waddch st win ch =
     (if win = NULL then Some (ERR, st)
      else do {
        w \<leftarrow> wins st win;
        let size = \<lparr>X = 1, Y = 1\<rparr>;
            origin = \<lparr>X = 0, Y = 0\<rparr>;
            rect = \<lparr>Left = X (w_cur w), Top = Y (w_cur w),
                    Right = X (w_cur w) + X size, Bottom = Y (w_cur w) + Y size\<rparr>;
            c = \<lparr>UnicodeChar = scast ch, Attributes = w_attrs w\<rparr>
        in
        if ch = 13 then
          Some (OK, st\<lparr>wins := (wins st)(win \<mapsto> w\<lparr>w_cur := (w_cur w)\<lparr>X := 0\<rparr>\<rparr>)\<rparr>)
        else if ch = 10 then
          Some (OK, st\<lparr>wins := (wins st)(win \<mapsto> w\<lparr>w_cur := \<lparr>X = 0, Y = Y (w_cur w) + 1\<rparr>\<rparr>)\<rparr>)
        else do {
          hb \<leftarrow> array_at (w_hcon w) (sint (w_bbuf w));
          case WriteConsoleOutput (con st) hb (\<lambda>q. c) size origin rect of
            None \<Rightarrow> Some (ERR, st)
          | Some (con', used) \<Rightarrow>
              if sint (X (w_size w)) = 0 then None
              else
                (let x' = (word_of_int ((sint (X (w_cur w)) + 1) smod sint (X (w_size w))) :: SHORT);
                     y' = (if x' = 0 then Y (w_cur w) + 1 else Y (w_cur w))
                 in Some (OK, st\<lparr>con := con',
                                  wins := (wins st)(win \<mapsto> w\<lparr>w_cur := \<lparr>X = x', Y = y'\<rparr>\<rparr>)\<rparr>))
        }
      })"

definition addch :: "wc_state \<Rightarrow> chtype \<Rightarrow> (cint \<times> wc_state) option" where
  "addch st ch = waddch st (stdscr st) ch"

text \<open>
  Modelled from the spec: string formatting, an opaque service that formats into a
  bounded buffer. A format with its arguments is given by the text it renders to
  (\<open>None\<close> when rendering fails). \<^verbatim>\<open>vsprintf_s\<close> with a buffer of \<open>n\<close> characters
  returns the number of characters written, and the buffer then holds the text; it
  returns a negative number when rendering fails or the text with its terminator does not
  fit.
\<close>

type_synonym format = "chtype list option"

definition vsprintf_s :: "int \<Rightarrow> format \<Rightarrow> int \<times> chtype list" where
  "vsprintf_s n fmt =
     (case fmt of
        None \<Rightarrow> (- 1, [])
      | Some t \<Rightarrow> if int (length t) < n then (int (length t), t) else (- 1, []))"

text \<open>
  The loop of \<^verbatim>\<open>va_wprintw\<close>, \<^verbatim>\<open>while (s[n] && waddch(win, s[n]) == OK) n++\<close>: it
  ends at the terminator (the end of the list, or a zero character) or at the first
  \<^verbatim>\<open>waddch\<close> that does not return \<^verbatim>\<open>OK\<close>.
\<close>

fun put_string :: "wc_state \<Rightarrow> win_ptr \<Rightarrow> chtype list \<Rightarrow> wc_state option" where
  "put_string st win [] = Some st"
| "put_string st win (ch # s) =
     (if ch = 0 then Some st
      else do {
        (r, st') \<leftarrow> waddch st win ch;
        if r = OK then put_string st' win s else Some st'
      })"

definition va_wprintw :: "wc_state \<Rightarrow> win_ptr \<Rightarrow> format \<Rightarrow> (cint \<times> wc_state) option" where
  "va_wprintw st win fmt = do {
     sw \<leftarrow> wins st (stdscr st);
     let (k, s) = vsprintf_s (sint (Y (w_size sw)) * sint (X (w_size sw))) fmt
     in if k < 0 then Some (ERR, st)
        else do { st' \<leftarrow> put_string st win s; Some (OK, st') }
   }"

definition printw :: "wc_state \<Rightarrow> format \<Rightarrow> (cint \<times> wc_state) option" where
  "printw st fmt = va_wprintw st (stdscr st) fmt"

definition wprintw :: "wc_state \<Rightarrow> win_ptr \<Rightarrow> format \<Rightarrow> (cint \<times> wc_state) option" where
  "wprintw st win fmt = (if win = NULL then Some (ERR, st) else va_wprintw st win fmt)"

text \<open>
  \<^verbatim>\<open>restore_cursor\<close> is the statement \<^verbatim>\<open>stdscr->cur = oldcur\<close> that \<^verbatim>\<open>mvprintw\<close> and
  \<^verbatim>\<open>mvwprintw\<close> share.
\<close>

definition restore_cursor :: "wc_state \<Rightarrow> COORD \<Rightarrow> wc_state option" where
  "restore_cursor st oldcur = do {
     sw \<leftarrow> wins st (stdscr st);
     Some (st\<lparr>wins := (wins st)(stdscr st \<mapsto> sw\<lparr>w_cur := oldcur\<rparr>)\<rparr>)
   }"

definition mvprintw :: "wc_state \<Rightarrow> cint \<Rightarrow> cint \<Rightarrow> format \<Rightarrow> (cint \<times> wc_state) option" where
  "mvprintw st y x fmt = do {
     sw \<leftarrow> wins st (stdscr st);
     let oldcur = w_cur sw in do {
       (m, st1) \<leftarrow> wmove st (stdscr st) y x;
       (r, st2) \<leftarrow> va_wprintw st1 (stdscr st1) fmt;
       if r = ERR then do { st3 \<leftarrow> restore_cursor st2 oldcur; Some (r, st3) }
       else Some (r, st2)
     }
   }"

definition mvwprintw :: "wc_state \<Rightarrow> win_ptr \<Rightarrow> cint \<Rightarrow> cint \<Rightarrow> format \<Rightarrow> (cint \<times> wc_state) option" where
  "mvwprintw st win y x fmt = do {
     sw \<leftarrow> wins st (stdscr st);
     let oldcur = w_cur sw in
     if win = NULL then Some (ERR, st)
     else do {
       (m, st1) \<leftarrow> wmove st win y x;
       (r, st2) \<leftarrow> va_wprintw st1 win fmt;
       if r = ERR then do { st3 \<leftarrow> restore_cursor st2 oldcur; Some (r, st3) }
       else Some (r, st2)
     }
   }"

section \<open>Refresh\<close>

text \<open>The C operator \<^verbatim>\<open>!\<close> on an \<^verbatim>\<open>int\<close>.\<close>

definition lnot :: "cint \<Rightarrow> cint" where
  "lnot v = (if v = 0 then 1 else 0)"

text \<open>
  \<^verbatim>\<open>refresh\<close>. None of the four backend calls is checked. The temporary array is
  fresh memory of \<^verbatim>\<open>size.Y * size.X\<close> cells. Both transfers take \<^verbatim>\<open>&stdscr->rect\<close> as
  their region: the array is read from that region of the back buffer and written to that
  region of the primary buffer, and each call that succeeds writes the rectangle it used
  back to \<^verbatim>\<open>stdscr->rect\<close>. Then the two indices are swapped:
  \<^verbatim>\<open>stdscr->bbuf = !(stdscr->prim = !stdscr->prim)\<close>.
\<close>

definition refresh :: "wc_state \<Rightarrow> (cint \<times> wc_state) option" where
  "refresh st = do {
     w \<leftarrow> wins st (stdscr st);
     hb \<leftarrow> array_at (w_hcon w) (sint (w_bbuf w));
     let c1 = ignoring_failure (con st) (SetConsoleActiveScreenBuffer (con st) hb);
         c2 = ignoring_failure c1 (SetConsoleCursorPosition c1 hb (w_cur w));
         tbuf = fresh_mem st;
         orig = \<lparr>X = 0, Y = 0\<rparr>;
         size = \<lparr>X = X (w_size w), Y = Y (w_size w)\<rparr>;
         (tbuf', rect1) = (case ReadConsoleOutput c2 hb tbuf size orig (w_rect w) of
                             None \<Rightarrow> (tbuf, w_rect w)
                           | Some read \<Rightarrow> read)
     in do {
       hp \<leftarrow> array_at (w_hcon w) (sint (w_prim w));
       let (c3, rect2) = (case WriteConsoleOutput c2 hp tbuf' size orig rect1 of
                            None \<Rightarrow> (c2, rect1)
                          | Some wrote \<Rightarrow> wrote);
           prim' = lnot (w_prim w);
           bbuf' = lnot prim'
       in Some (OK, st\<lparr>con := c3,
                        wins := (wins st)(stdscr st \<mapsto>
                          w\<lparr>w_rect := rect2, w_prim := prim', w_bbuf := bbuf'\<rparr>)\<rparr>)
     }
   }"

text \<open>
  The cell of a screen buffer, by handle: \<open>None\<close> when the handle is not alive or the
  buffer has no such cell.
\<close>

definition cell_of :: "wc_state \<Rightarrow> HANDLE \<Rightarrow> int \<times> int \<Rightarrow> CHAR_INFO option" where
  "cell_of st h p =
     (case con_screen (con st) h of
        None \<Rightarrow> None
      | Some b \<Rightarrow> if in_buffer (sb_size b) p then Some (sb_cells b p) else None)"

text \<open>The cells of a rectangle, its corners included.\<close>

definition in_rect :: "SMALL_RECT \<Rightarrow> int \<times> int \<Rightarrow> bool" where
  "in_rect rect p = (case p of (r, c) \<Rightarrow>
     sint (Top rect) \<le> r \<and> r \<le> sint (Bottom rect) \<and> sint (Left rect) \<le> c \<and> c \<le> sint (Right rect))"

section \<open>Reading keys\<close>

text \<open>
  The key codes of \<^verbatim>\<open>enum keycode\<close> that the library returns, with the values the
  enumeration gives them (it starts at \<^verbatim>\<open>KEY_CODE_YES = 256\<close>, and \<^verbatim>\<open>KEY_DL\<close> is
  \<^verbatim>\<open>KEY_F0 + 64\<close>); \<^verbatim>\<open>KEY_IC\<close> is in the enumeration too.
\<close>

definition KEY_DOWN :: cint where "KEY_DOWN = 258"
definition KEY_UP :: cint where "KEY_UP = 259"
definition KEY_LEFT :: cint where "KEY_LEFT = 260"
definition KEY_RIGHT :: cint where "KEY_RIGHT = 261"
definition KEY_HOME :: cint where "KEY_HOME = 262"
definition KEY_BACKSPACE :: cint where "KEY_BACKSPACE = 263"
definition KEY_F0 :: cint where "KEY_F0 = 264"
definition KEY_DC :: cint where "KEY_DC = 330"
definition KEY_IC :: cint where "KEY_IC = 331"
definition KEY_CLEAR :: cint where "KEY_CLEAR = 333"
definition KEY_NPAGE :: cint where "KEY_NPAGE = 338"
definition KEY_PPAGE :: cint where "KEY_PPAGE = 339"
definition KEY_ENTER :: cint where "KEY_ENTER = 343"
definition KEY_PRINT :: cint where "KEY_PRINT = 346"
definition KEY_A1 :: cint where "KEY_A1 = 348"
definition KEY_A3 :: cint where "KEY_A3 = 349"
definition KEY_B2 :: cint where "KEY_B2 = 350"
definition KEY_C1 :: cint where "KEY_C1 = 351"
definition KEY_C3 :: cint where "KEY_C3 = 352"
definition KEY_CANCEL :: cint where "KEY_CANCEL = 355"
definition KEY_COMMAND :: cint where "KEY_COMMAND = 357"
definition KEY_END :: cint where "KEY_END = 360"
definition KEY_EXIT :: cint where "KEY_EXIT = 361"
definition KEY_HELP :: cint where "KEY_HELP = 363"
definition KEY_SELECT :: cint where "KEY_SELECT = 385"

definition KEY_F :: "cint \<Rightarrow> cint" where
  "KEY_F n = KEY_F0 + n"

text \<open>The virtual-key codes of \<^verbatim>\<open>windows.h\<close> that matter here, with the SDK's values.\<close>

definition VK_CANCEL :: WORD where "VK_CANCEL = 0x03"
definition VK_BACK :: WORD where "VK_BACK = 0x08"
definition VK_CLEAR :: WORD where "VK_CLEAR = 0x0C"
definition VK_RETURN :: WORD where "VK_RETURN = 0x0D"
definition VK_CONTROL :: WORD where "VK_CONTROL = 0x11"
definition VK_ESCAPE :: WORD where "VK_ESCAPE = 0x1B"
definition VK_PRIOR :: WORD where "VK_PRIOR = 0x21"
definition VK_NEXT :: WORD where "VK_NEXT = 0x22"
definition VK_END :: WORD where "VK_END = 0x23"
definition VK_HOME :: WORD where "VK_HOME = 0x24"
definition VK_LEFT :: WORD where "VK_LEFT = 0x25"
definition VK_UP :: WORD where "VK_UP = 0x26"
definition VK_RIGHT :: WORD where "VK_RIGHT = 0x27"
definition VK_DOWN :: WORD where "VK_DOWN = 0x28"
definition VK_SELECT :: WORD where "VK_SELECT = 0x29"
definition VK_PRINT :: WORD where "VK_PRINT = 0x2A"
definition VK_INSERT :: WORD where "VK_INSERT = 0x2D"
definition VK_DELETE :: WORD where "VK_DELETE = 0x2E"
definition VK_HELP :: WORD where "VK_HELP = 0x2F"
definition VK_NUMPAD1 :: WORD where "VK_NUMPAD1 = 0x61"
definition VK_NUMPAD2 :: WORD where "VK_NUMPAD2 = 0x62"
definition VK_NUMPAD3 :: WORD where "VK_NUMPAD3 = 0x63"
definition VK_NUMPAD4 :: WORD where "VK_NUMPAD4 = 0x64"
definition VK_NUMPAD5 :: WORD where "VK_NUMPAD5 = 0x65"
definition VK_NUMPAD6 :: WORD where "VK_NUMPAD6 = 0x66"
definition VK_NUMPAD7 :: WORD where "VK_NUMPAD7 = 0x67"
definition VK_NUMPAD8 :: WORD where "VK_NUMPAD8 = 0x68"
definition VK_NUMPAD9 :: WORD where "VK_NUMPAD9 = 0x69"
definition VK_F1 :: WORD where "VK_F1 = 0x70"
definition VK_F2 :: WORD where "VK_F2 = 0x71"
definition VK_F3 :: WORD where "VK_F3 = 0x72"
definition VK_F4 :: WORD where "VK_F4 = 0x73"
definition VK_F5 :: WORD where "VK_F5 = 0x74"
definition VK_F6 :: WORD where "VK_F6 = 0x75"
definition VK_F7 :: WORD where "VK_F7 = 0x76"
definition VK_F8 :: WORD where "VK_F8 = 0x77"
definition VK_F9 :: WORD where "VK_F9 = 0x78"
definition VK_F10 :: WORD where "VK_F10 = 0x79"
definition VK_F11 :: WORD where "VK_F11 = 0x7A"
definition VK_F12 :: WORD where "VK_F12 = 0x7B"
definition VK_F13 :: WORD where "VK_F13 = 0x7C"
definition VK_F14 :: WORD where "VK_F14 = 0x7D"
definition VK_F15 :: WORD where "VK_F15 = 0x7E"
definition VK_F16 :: WORD where "VK_F16 = 0x7F"
definition VK_F17 :: WORD where "VK_F17 = 0x80"
definition VK_F18 :: WORD where "VK_F18 = 0x81"
definition VK_F19 :: WORD where "VK_F19 = 0x82"
definition VK_F20 :: WORD where "VK_F20 = 0x83"
definition VK_F21 :: WORD where "VK_F21 = 0x84"
definition VK_F22 :: WORD where "VK_F22 = 0x85"
definition VK_F23 :: WORD where "VK_F23 = 0x86"
definition VK_F24 :: WORD where "VK_F24 = 0x87"

text \<open>
  The \<^verbatim>\<open>switch\<close> of \<^verbatim>\<open>wgetch\<close> on the virtual-key code, case by case in the
  source's order; \<open>r\<close> is the raw character, which every other code leaves as it is.
\<close>

definition translate_key :: "WORD \<Rightarrow> cint \<Rightarrow> cint" where
  "translate_key vk r =
     (if vk = VK_ESCAPE then KEY_EXIT
      else if vk = VK_CANCEL then KEY_CANCEL
      else if vk = VK_BACK then KEY_BACKSPACE
      else if vk = VK_CLEAR then KEY_CLEAR
      else if vk = VK_RETURN then KEY_ENTER
      else if vk = VK_CONTROL then KEY_COMMAND
      else if vk = VK_PRIOR then KEY_PPAGE
      else if vk = VK_NEXT then KEY_NPAGE
      else if vk = VK_END then KEY_END
      else if vk = VK_HOME then KEY_HOME
      else if vk = VK_LEFT then KEY_LEFT
      else if vk = VK_UP then KEY_UP
      else if vk = VK_RIGHT then KEY_RIGHT
      else if vk = VK_DOWN then KEY_DOWN
      else if vk = VK_SELECT then KEY_SELECT
      else if vk = VK_PRINT then KEY_PRINT
      else if vk = VK_DELETE then KEY_DC
      else if vk = VK_HELP then KEY_HELP
      else if vk = VK_NUMPAD1 then KEY_C1
      else if vk = VK_NUMPAD2 then KEY_DOWN
      else if vk = VK_NUMPAD3 then KEY_C3
      else if vk = VK_NUMPAD4 then KEY_LEFT
      else if vk = VK_NUMPAD5 then KEY_B2
      else if vk = VK_NUMPAD6 then KEY_RIGHT
      else if vk = VK_NUMPAD7 then KEY_A1
      else if vk = VK_NUMPAD8 then KEY_UP
      else if vk = VK_NUMPAD9 then KEY_A3
      else if vk = VK_F1 then (KEY_F 1)
      else if vk = VK_F2 then (KEY_F 2)
      else if vk = VK_F3 then (KEY_F 3)
      else if vk = VK_F4 then (KEY_F 4)
      else if vk = VK_F5 then (KEY_F 5)
      else if vk = VK_F6 then (KEY_F 6)
      else if vk = VK_F7 then (KEY_F 7)
      else if vk = VK_F8 then (KEY_F 8)
      else if vk = VK_F9 then (KEY_F 9)
      else if vk = VK_F10 then (KEY_F 10)
      else if vk = VK_F11 then (KEY_F 11)
      else if vk = VK_F12 then (KEY_F 12)
      else if vk = VK_F13 then (KEY_F 13)
      else if vk = VK_F14 then (KEY_F 14)
      else if vk = VK_F15 then (KEY_F 15)
      else if vk = VK_F16 then (KEY_F 16)
      else if vk = VK_F17 then (KEY_F 17)
      else if vk = VK_F18 then (KEY_F 18)
      else if vk = VK_F19 then (KEY_F 19)
      else if vk = VK_F20 then (KEY_F 20)
      else if vk = VK_F21 then (KEY_F 21)
      else if vk = VK_F22 then (KEY_F 22)
      else if vk = VK_F23 then (KEY_F 23)
      else if vk = VK_F24 then (KEY_F 24)
      else r)"

text \<open>
  Modelled from the spec: \<^verbatim>\<open>kbhit\<close> of \<^verbatim>\<open>conio.h\<close>, the check whether input is
  available without waiting: a key-down event is pending.
\<close>

definition is_key_down :: "INPUT_RECORD \<Rightarrow> bool" where
  "is_key_down c = (EventType c = KEY_EVENT \<and> bKeyDown c \<noteq> 0)"

definition kbhit :: "INPUT_RECORD list \<Rightarrow> bool" where
  "kbhit q = list_ex is_key_down q"

text \<open>
  The polling loop of \<^verbatim>\<open>wgetch\<close> over the pending events: with \<open>nodelay\<close> and
  nothing to read it gives up (no event, the queue as it is); an event that is no key
  event or no key-down is dropped; the first key-down event ends the loop.
  \<^verbatim>\<open>ReadConsoleInput\<close> waits when no event is pending, so without \<open>nodelay\<close> a
  queue that runs out means the call never returns.
\<close>

fun poll_input :: "bool \<Rightarrow> INPUT_RECORD list \<Rightarrow> (INPUT_RECORD option \<times> INPUT_RECORD list) option" where
  "poll_input nodelay [] = (if nodelay then Some (None, []) else None)"
| "poll_input nodelay (c # q) =
     (if nodelay \<and> \<not> kbhit (c # q) then Some (None, c # q)
      else if is_key_down c then Some (Some c, q)
      else poll_input nodelay q)"

text \<open>
  \<^verbatim>\<open>if (flags & WC_ECHO) addch(c.Event.KeyEvent.uChar.AsciiChar)\<close>: the result of
  \<^verbatim>\<open>addch\<close> is not looked at.
\<close>

definition echo_input :: "wc_state \<Rightarrow> chtype \<Rightarrow> wc_state option" where
  "echo_input st ch =
     (if flags st AND WC_ECHO \<noteq> 0 then map_option snd (addch st ch) else Some st)"

definition wgetch :: "wc_state \<Rightarrow> win_ptr \<Rightarrow> (cint \<times> wc_state) option" where
  "wgetch st win = do {
     w \<leftarrow> wins st win;
     (ev, q) \<leftarrow> poll_input (w_flags w AND WC_NODELAY \<noteq> 0) (con_input (con st));
     case ev of
       None \<Rightarrow> Some (ERR, st\<lparr>con := (con st)\<lparr>con_input := q\<rparr>\<rparr>)
     | Some c \<Rightarrow> do {
         st2 \<leftarrow> echo_input (st\<lparr>con := (con st)\<lparr>con_input := q\<rparr>\<rparr>) (AsciiChar c);
         w2 \<leftarrow> wins st2 win;
         let r = (scast (AsciiChar c) :: cint) in
         Some (if w_flags w2 AND WC_WKEYPAD \<noteq> 0 then translate_key (wVirtualKeyCode c) r else r, st2)
       }
   }"

definition getch :: "wc_state \<Rightarrow> (cint \<times> wc_state) option" where
  "getch st = wgetch st (stdscr st)"

text \<open>\<^verbatim>\<open>mvwgetch\<close>: the move is \<^verbatim>\<open>wmove(stdscr, y, x)\<close>, its result is not looked at.\<close>

definition mvwgetch :: "wc_state \<Rightarrow> win_ptr \<Rightarrow> cint \<Rightarrow> cint \<Rightarrow> (cint \<times> wc_state) option" where
  "mvwgetch st win y x = do {
     (m, st1) \<leftarrow> wmove st (stdscr st) y x;
     wgetch st1 win
   }"

definition mvgetch :: "wc_state \<Rightarrow> cint \<Rightarrow> cint \<Rightarrow> (cint \<times> wc_state) option" where
  "mvgetch st y x = mvwgetch st (stdscr st) y x"

section \<open>Input modes\<close>

text \<open>
  \<^verbatim>\<open>setmode\<close> reads \<^verbatim>\<open>if (!GetConsoleMode(hcon, &mode)); return ERR;\<close>: the
  \<^verbatim>\<open>if\<close> governs the empty statement, and the \<^verbatim>\<open>return ERR\<close> after it ends the
  function whatever the query gave. \<^verbatim>\<open>clearmode\<close> has no such semicolon.
\<close>

definition setmode :: "wc_state \<Rightarrow> HANDLE \<Rightarrow> DWORD \<Rightarrow> cint \<times> wc_state" where
  "setmode st h bmask =
     (let got = GetConsoleMode (con st) h;
          empty_statement = (if got = None then () else ())
      in (ERR, st))"

definition clearmode :: "wc_state \<Rightarrow> HANDLE \<Rightarrow> DWORD \<Rightarrow> cint \<times> wc_state" where
  "clearmode st h bmask =
     (case GetConsoleMode (con st) h of
        None \<Rightarrow> (ERR, st)
      | Some mode \<Rightarrow>
          (case SetConsoleMode (con st) h (mode AND NOT bmask) of
             None \<Rightarrow> (ERR, st)
           | Some con' \<Rightarrow> (OK, st\<lparr>con := con'\<rparr>)))"

definition cbreak :: "wc_state \<Rightarrow> cint \<times> wc_state" where
  "cbreak st =
     (case clearmode st (hstdin st) ENABLE_LINE_INPUT of (r1, st1) \<Rightarrow>
        if r1 = ERR then (ERR, st1)
        else (case setmode st1 (hstdin st1) ENABLE_PROCESSED_INPUT of (r2, st2) \<Rightarrow>
          if r2 = ERR then (ERR, st2) else (OK, st2)))"

text \<open>The input mode of the library's input handle, when the backend can report it.\<close>

definition input_mode :: "wc_state \<Rightarrow> DWORD option" where
  "input_mode st = GetConsoleMode (con st) (hstdin st)"

section \<open>Attributes and colours\<close>

text \<open>The attribute masks of \<^verbatim>\<open>enum attr\<close> that \<^verbatim>\<open>getattrs\<close> tests.\<close>

definition A_BOLD :: "32 word" where "A_BOLD = push_bit 2 1"
definition A_REVERSE :: "32 word" where "A_REVERSE = push_bit 6 1"
definition A_STANDOUT :: "32 word" where "A_STANDOUT = push_bit 7 1"
definition A_UNDERLINE :: "32 word" where "A_UNDERLINE = push_bit 8 1"

text \<open>The colour codes of \<^verbatim>\<open>enum colorcode\<close>.\<close>

definition COLOR_BLACK :: cint where "COLOR_BLACK = 0"
definition COLOR_BLUE :: cint where "COLOR_BLUE = 1"
definition COLOR_GREEN :: cint where "COLOR_GREEN = 2"
definition COLOR_CYAN :: cint where "COLOR_CYAN = 3"
definition COLOR_RED :: cint where "COLOR_RED = 4"
definition COLOR_MAGENTA :: cint where "COLOR_MAGENTA = 5"
definition COLOR_YELLOW :: cint where "COLOR_YELLOW = 6"
definition COLOR_WHITE :: cint where "COLOR_WHITE = 7"

text \<open>
  The bit packing. \<^verbatim>\<open>COLOR_PAIR\<close> shifts an \<^verbatim>\<open>int\<close> left by \<^verbatim>\<open>32 - COLOR_BITS\<close>;
  the macro \<^verbatim>\<open>A_COLOR_DATA\<close>, which \<^verbatim>\<open>PAIR_NUMBER\<close> applies to its \<^verbatim>\<open>int\<close>
  argument, shifts right by as much. The left shift keeps the low 32 bits, and the right
  shift of a signed \<^verbatim>\<open>int\<close> copies the sign bit, as the compilers for Windows do.
\<close>

definition COLOR_PAIR :: "cint \<Rightarrow> cint" where
  "COLOR_PAIR n = push_bit (32 - COLOR_BITS) n"

definition A_COLOR_DATA :: "cint \<Rightarrow> cint" where
  "A_COLOR_DATA attrs = signed_drop_bit (32 - COLOR_BITS) attrs"

definition PAIR_NUMBER :: "cint \<Rightarrow> cint" where
  "PAIR_NUMBER v = A_COLOR_DATA v"

definition FTOB :: "cint \<Rightarrow> cint" where
  "FTOB v = push_bit 4 v"

text \<open>Writing a C array: \<open>None\<close> outside its bounds.\<close>

definition array_upd :: "'a list \<Rightarrow> int \<Rightarrow> 'a \<Rightarrow> 'a list option" where
  "array_upd xs i v = (if 0 \<le> i \<and> i < int (length xs) then Some (xs[nat i := v]) else None)"

definition can_change_color :: cint where
  "can_change_color = CAN_CHANGE_COLOR"

definition has_colors :: "wc_state \<Rightarrow> cint \<times> wc_state" where
  "has_colors st =
     (let st0 = st\<lparr>COLORS := 0, COLOR_PAIRS := 0\<rparr>
      in (HAS_COLORS,
          if HAS_COLORS = TRUE then st0\<lparr>COLORS := NUM_COLORS, COLOR_PAIRS := MAX_NUM_PAIRS\<rparr> else st0))"

text \<open>
  \<^verbatim>\<open>init_pair\<close>: the condition is a chain of \<^verbatim>\<open>&&\<close>, so \<^verbatim>\<open>has_colors\<close> runs only
  when the colour flag is set.
\<close>

definition init_pair :: "wc_state \<Rightarrow> SHORT \<Rightarrow> SHORT \<Rightarrow> SHORT \<Rightarrow> (cint \<times> wc_state) option" where
  "init_pair st pair f b =
     (if flags st AND WC_COLOR \<noteq> 0 then
        (case has_colors st of (hc, st1) \<Rightarrow>
           if hc \<noteq> 0 \<and> sint pair < sint (COLOR_PAIRS st1) \<and> 0 < sint pair then do {
             ps \<leftarrow> array_upd (color_pairs st1) (sint pair) \<lparr>pair_f = f, pair_b = b\<rparr>;
             Some (OK, st1\<lparr>color_pairs := ps\<rparr>)
           }
           else Some (ERR, st1))
      else Some (ERR, st))"

text \<open>
  \<^verbatim>\<open>pair_content\<close> takes two pointers to \<^verbatim>\<open>short\<close>. A pointer is the address of a
  variable of the caller or of a member of the pair table; the caller's variables are a
  memory of their own. The body assigns to its parameters,
  \<^verbatim>\<open>f = &color_pairs[pair].f; b = &color_pairs[pair].b;\<close>, and stores through neither:
  \<open>f'\<close> and \<open>b'\<close> are the parameters' last values, gone when the function returns.
\<close>

datatype short_ptr = Caller_var nat | Pair_member_f int | Pair_member_b int

type_synonym short_mem = "nat \<Rightarrow> SHORT"

definition pair_content ::
    "wc_state \<Rightarrow> short_mem \<Rightarrow> SHORT \<Rightarrow> short_ptr \<Rightarrow> short_ptr \<Rightarrow> cint \<times> wc_state \<times> short_mem" where
  "pair_content st mem pair f b =
     (if flags st AND WC_COLOR \<noteq> 0 then
        (case has_colors st of (hc, st1) \<Rightarrow>
           if hc \<noteq> 0 \<and> sint pair < sint (COLOR_PAIRS st1) \<and> 0 \<le> sint pair then
             (let f' = Pair_member_f (sint pair);
                  b' = Pair_member_b (sint pair)
              in (OK, st1, mem))
           else (ERR, st1, mem))
      else (ERR, st, mem))"

text \<open>
  \<^verbatim>\<open>getattrs\<close>. The colour part runs when the colour flag is set and the colours
  cannot be changed; it indexes \<^verbatim>\<open>color_pairs\<close> with the pair number of \<^verbatim>\<open>attrs\<close> and
  \<^verbatim>\<open>colors\<close> with the pair's members, with no check of either index.
\<close>

definition channel_mask :: "color_t \<Rightarrow> cint" where
  "channel_mask c =
     (if color_r c = 0 then 0 else FOREGROUND_RED)
     OR (if color_g c = 0 then 0 else FOREGROUND_GREEN)
     OR (if color_b c = 0 then 0 else FOREGROUND_BLUE)"

definition getattrs :: "wc_state \<Rightarrow> 32 word \<Rightarrow> WORD option" where
  "getattrs st attrs =
     (let b0 = (0 :: WORD);
          b1 = (if attrs AND A_BOLD \<noteq> 0 then b0 OR FOREGROUND_INTENSITY else b0);
          b2 = (if attrs AND A_REVERSE \<noteq> 0 then b1 OR COMMON_LVB_REVERSE_VIDEO else b1);
          b3 = (if attrs AND A_STANDOUT \<noteq> 0 then b2 OR BACKGROUND_INTENSITY else b2);
          b4 = (if attrs AND A_UNDERLINE \<noteq> 0 then b3 OR COMMON_LVB_UNDERSCORE else b3)
      in if flags st AND WC_COLOR \<noteq> 0 \<and> can_change_color = FALSE then do {
           p \<leftarrow> array_at (color_pairs st) (sint (PAIR_NUMBER attrs));
           cf \<leftarrow> array_at (colors st) (sint (pair_f p));
           cb \<leftarrow> array_at (colors st) (sint (pair_b p));
           Some (b4 OR ucast (channel_mask cf) OR ucast (FTOB (channel_mask cb)))
         }
         else Some b4)"

definition wattrset :: "wc_state \<Rightarrow> win_ptr \<Rightarrow> cint \<Rightarrow> (cint \<times> wc_state) option" where
  "wattrset st win attrs = do {
     bmask \<leftarrow> getattrs st attrs;
     w \<leftarrow> wins st win;
     Some (OK, st\<lparr>wins := (wins st)(win \<mapsto> w\<lparr>w_attrs := bmask\<rparr>)\<rparr>)
   }"

definition attrset :: "wc_state \<Rightarrow> cint \<Rightarrow> (cint \<times> wc_state) option" where
  "attrset st attrs = wattrset st (stdscr st) attrs"

text \<open>One entry of \<^verbatim>\<open>colors\<close>: the three stores to its members.\<close>

definition set_color :: "wc_state \<Rightarrow> cint \<Rightarrow> SHORT \<Rightarrow> SHORT \<Rightarrow> SHORT \<Rightarrow> wc_state option" where
  "set_color st color red green blue = do {
     cs \<leftarrow> array_upd (colors st) (sint color) \<lparr>color_r = red, color_g = green, color_b = blue\<rparr>;
     Some (st\<lparr>colors := cs\<rparr>)
   }"

text \<open>
  \<^verbatim>\<open>start_color\<close>. The results of \<^verbatim>\<open>init_pair(0, COLOR_WHITE, COLOR_BLACK)\<close> and of
  \<^verbatim>\<open>attrset(COLOR_PAIR(0))\<close> are not looked at; the colour flag is set after both.
\<close>

definition start_color :: "wc_state \<Rightarrow> (cint \<times> wc_state) option" where
  "start_color st =
     (case has_colors st of (hc, st0) \<Rightarrow>
        if hc \<noteq> 0 then do {
          st1 \<leftarrow> set_color st0 COLOR_BLACK 0 0 0;
          st2 \<leftarrow> set_color st1 COLOR_BLUE 0 0 1000;
          st3 \<leftarrow> set_color st2 COLOR_GREEN 0 1000 0;
          st4 \<leftarrow> set_color st3 COLOR_CYAN 0 1000 1000;
          st5 \<leftarrow> set_color st4 COLOR_RED 1000 0 0;
          st6 \<leftarrow> set_color st5 COLOR_MAGENTA 1000 0 1000;
          st7 \<leftarrow> set_color st6 COLOR_YELLOW 1000 1000 0;
          st8 \<leftarrow> set_color st7 COLOR_WHITE 1000 1000 1000;
          (r1, st9) \<leftarrow> init_pair st8 0 (to_SHORT COLOR_WHITE) (to_SHORT COLOR_BLACK);
          (r2, st10) \<leftarrow> attrset st9 (COLOR_PAIR 0);
          Some (OK, st10\<lparr>flags := flags st10 OR WC_COLOR\<rparr>)
        }
        else Some (ERR, st0))"

section \<open>What the claims speak of\<close>

text \<open>What a call returned, and the state it left, for a call that returned.\<close>

definition returned :: "(cint \<times> wc_state) option \<Rightarrow> cint option" where
  "returned res = map_option fst res"

definition state_after :: "(cint \<times> wc_state) option \<Rightarrow> wc_state" where
  "state_after res = snd (the res)"

text \<open>
  A rectangle that a transfer through an array of the given size moves whole: it lies
  inside the screen buffer, and it has no more rows and columns than the array.
\<close>

definition moved_whole :: "COORD \<Rightarrow> COORD \<Rightarrow> SMALL_RECT \<Rightarrow> bool" where
  "moved_whole ext dims rect =
     (0 \<le> sint (Top rect) \<and> sint (Bottom rect) < sint (Y ext)
      \<and> 0 \<le> sint (Left rect) \<and> sint (Right rect) < sint (X ext)
      \<and> sint (Bottom rect) - sint (Top rect) < sint (Y dims)
      \<and> sint (Right rect) - sint (Left rect) < sint (X dims))"

text \<open>
  Formatting succeeds: \<^verbatim>\<open>vsprintf_s\<close>, with the buffer size that \<^verbatim>\<open>va_wprintw\<close> takes
  from the default window, does not return a negative number.
\<close>

definition formats :: "wc_state \<Rightarrow> format \<Rightarrow> bool" where
  "formats st fmt =
     (case wins st (stdscr st) of
        None \<Rightarrow> False
      | Some sw \<Rightarrow> 0 \<le> fst (vsprintf_s (sint (Y (w_size sw)) * sint (X (w_size sw))) fmt))"

text \<open>
  A window pointer that \<^verbatim>\<open>waddch\<close> can be called with: it is \<^verbatim>\<open>NULL\<close>, or it is the
  address of a window whose back-buffer index is 0 or 1 and whose width is not zero (so
  that the index into \<^verbatim>\<open>hcon\<close> and the remainder by the width are defined).
\<close>

definition writable :: "wc_state \<Rightarrow> win_ptr \<Rightarrow> bool" where
  "writable st win =
     (win = NULL \<or>
      (case wins st win of
         None \<Rightarrow> False
       | Some w \<Rightarrow> array_at (w_hcon w) (sint (w_bbuf w)) \<noteq> None \<and> sint (X (w_size w)) \<noteq> 0))"

text \<open>
  The state after every character of a text has been written: each is a character other
  than the terminator, and \<^verbatim>\<open>waddch\<close> returned \<^verbatim>\<open>OK\<close> on it. \<open>None\<close> if that is
  not so for one of them.
\<close>

fun written :: "wc_state \<Rightarrow> win_ptr \<Rightarrow> chtype list \<Rightarrow> wc_state option" where
  "written st win [] = Some st"
| "written st win (ch # s) =
     (if ch = 0 then None
      else case waddch st win ch of
             None \<Rightarrow> None
           | Some (r, st') \<Rightarrow> if r = OK then written st' win s else None)"

text \<open>
  Two states with the same windows at the same addresses, up to their cursors and
  attributes, and the same default window.
\<close>

definition same_shape :: "wc_state \<Rightarrow> wc_state \<Rightarrow> bool" where
  "same_shape st st' =
     (stdscr st' = stdscr st \<and>
      (\<forall>v. map_option (\<lambda>w. (w_size w, w_hcon w, w_bbuf w, w_prim w, w_flags w, w_rect w)) (wins st' v)
         = map_option (\<lambda>w. (w_size w, w_hcon w, w_bbuf w, w_prim w, w_flags w, w_rect w)) (wins st v)))"

text \<open>
  The keys that \<^verbatim>\<open>wgetch\<close> translates, each with its key code: escape, cancel,
  backspace, clear, enter, control; page up, page down, end, home; the four arrows;
  select, print, delete, help; the numeric keypad's 1 to 9; F1 to F24.
\<close>

definition keypad_keys :: "(WORD \<times> cint) list" where
  "keypad_keys =
     [(VK_ESCAPE, KEY_EXIT), (VK_CANCEL, KEY_CANCEL), (VK_BACK, KEY_BACKSPACE), (VK_CLEAR, KEY_CLEAR), (VK_RETURN, KEY_ENTER), (VK_CONTROL, KEY_COMMAND),
      (VK_PRIOR, KEY_PPAGE), (VK_NEXT, KEY_NPAGE), (VK_END, KEY_END), (VK_HOME, KEY_HOME),
      (VK_LEFT, KEY_LEFT), (VK_UP, KEY_UP), (VK_RIGHT, KEY_RIGHT), (VK_DOWN, KEY_DOWN),
      (VK_SELECT, KEY_SELECT), (VK_PRINT, KEY_PRINT), (VK_DELETE, KEY_DC), (VK_HELP, KEY_HELP),
      (VK_NUMPAD1, KEY_C1), (VK_NUMPAD2, KEY_DOWN), (VK_NUMPAD3, KEY_C3), (VK_NUMPAD4, KEY_LEFT), (VK_NUMPAD5, KEY_B2), (VK_NUMPAD6, KEY_RIGHT), (VK_NUMPAD7, KEY_A1), (VK_NUMPAD8, KEY_UP), (VK_NUMPAD9, KEY_A3),
      (VK_F1, KEY_F 1), (VK_F2, KEY_F 2), (VK_F3, KEY_F 3), (VK_F4, KEY_F 4), (VK_F5, KEY_F 5), (VK_F6, KEY_F 6), (VK_F7, KEY_F 7), (VK_F8, KEY_F 8), (VK_F9, KEY_F 9), (VK_F10, KEY_F 10), (VK_F11, KEY_F 11), (VK_F12, KEY_F 12),
      (VK_F13, KEY_F 13), (VK_F14, KEY_F 14), (VK_F15, KEY_F 15), (VK_F16, KEY_F 16), (VK_F17, KEY_F 17), (VK_F18, KEY_F 18), (VK_F19, KEY_F 19), (VK_F20, KEY_F 20), (VK_F21, KEY_F 21), (VK_F22, KEY_F 22), (VK_F23, KEY_F 23), (VK_F24, KEY_F 24)]"

section \<open>Example states\<close>

text \<open>
  A console with two live screen buffers of 80 columns and 25 rows (handles 10 and 11)
  and one input handle (3), and an 80 by 25 default window at address 1 as \<^verbatim>\<open>initscr\<close>
  sets it up when the console's viewport is at the top left of its buffer; the globals are
  zero, as at program start.
\<close>

definition blank_cell :: CHAR_INFO where
  "blank_cell = \<lparr>UnicodeChar = 32, Attributes = 0\<rparr>"

definition blank_buffer :: screen_buffer where
  "blank_buffer = \<lparr>sb_size = \<lparr>X = 80, Y = 25\<rparr>, sb_cells = (\<lambda>p. blank_cell)\<rparr>"

definition example_console :: console where
  "example_console = \<lparr>
     con_screen = [10 \<mapsto> blank_buffer, 11 \<mapsto> blank_buffer],
     con_active = 10,
     con_cursor = [10 \<mapsto> \<lparr>X = 0, Y = 0\<rparr>, 11 \<mapsto> \<lparr>X = 0, Y = 0\<rparr>],
     con_mode = [3 \<mapsto> 0],
     con_input = []\<rparr>"

definition example_window :: WINDOW where
  "example_window = \<lparr>
     w_rect = \<lparr>Left = 0, Top = 0, Right = 79, Bottom = 24\<rparr>,
     w_size = \<lparr>X = 80, Y = 25\<rparr>,
     w_cur = \<lparr>X = 0, Y = 0\<rparr>,
     w_hcon = [10, 11],
     w_prim = 0,
     w_bbuf = 1,
     w_flags = 0,
     w_attrs = 7\<rparr>"

definition example_state :: wc_state where
  "example_state = \<lparr>
     stdscr = 1,
     wins = [1 \<mapsto> example_window],
     hstdin = 3,
     flags = 0,
     COLORS = 0,
     COLOR_PAIRS = 0,
     colors = replicate 8 \<lparr>color_r = 0, color_g = 0, color_b = 0\<rparr>,
     color_pairs = replicate 64 \<lparr>pair_f = 0, pair_b = 0\<rparr>,
     con = example_console,
     fresh_mem = (\<lambda>p. \<lparr>UnicodeChar = 0, Attributes = 0\<rparr>)\<rparr>"

text \<open>
  A second window at address 2, owned by a caller, with its cursor at row 2, column 3,
  beside the default window.
\<close>

definition example_window2 :: WINDOW where
  "example_window2 = example_window\<lparr>w_cur := \<lparr>X = 3, Y = 2\<rparr>\<rparr>"

definition two_window_state :: wc_state where
  "two_window_state = example_state\<lparr>wins := [1 \<mapsto> example_window, 2 \<mapsto> example_window2]\<rparr>"

text \<open>The example state once \<^verbatim>\<open>start_color\<close> has run.\<close>

definition color_state :: wc_state where
  "color_state = state_after (start_color example_state)"

text \<open>
  The default window as \<^verbatim>\<open>initscr\<close> sets it up in a console whose viewport shows rows
  100 to 124 of its buffer, as when the console has scrolled: \<^verbatim>\<open>rect\<close> is the
  viewport \<^verbatim>\<open>coninfo.srWindow\<close>, \<^verbatim>\<open>size\<close> is 25 rows of 80 columns, and the two
  screen buffers are set to that size.
\<close>

definition scrolled_window :: WINDOW where
  "scrolled_window = example_window\<lparr>w_rect := \<lparr>Left = 0, Top = 100, Right = 79, Bottom = 124\<rparr>\<rparr>"

definition scrolled_state :: wc_state where
  "scrolled_state = example_state\<lparr>wins := [1 \<mapsto> scrolled_window]\<rparr>"

text \<open>The cell that \<^verbatim>\<open>addch('X')\<close> writes with the default window's attributes.\<close>

definition X_cell :: CHAR_INFO where
  "X_cell = \<lparr>UnicodeChar = 88, Attributes = 7\<rparr>"

text \<open>The example state with the back buffer's handle (11) no longer alive.\<close>

definition dead_buffer_state :: wc_state where
  "dead_buffer_state = example_state\<lparr>
     con := example_console\<lparr>con_screen := [10 \<mapsto> blank_buffer]\<rparr>\<rparr>"

text \<open>
  Input events: a key-down event with a virtual-key code and a character, and an event
  that is no key event (\<^verbatim>\<open>MOUSE_EVENT\<close>, 2). \<open>keypad_state\<close> is the example state with
  the keypad flag of the default window set and the given events pending;
  \<open>key_waiting_state\<close> is the state with the two windows and the key \<open>a\<close> pending.
\<close>

definition key_down :: "WORD \<Rightarrow> chtype \<Rightarrow> INPUT_RECORD" where
  "key_down vk ch = \<lparr>EventType = KEY_EVENT, bKeyDown = 1, AsciiChar = ch, wVirtualKeyCode = vk\<rparr>"

definition mouse_event :: INPUT_RECORD where
  "mouse_event = \<lparr>EventType = 2, bKeyDown = 0, AsciiChar = 0, wVirtualKeyCode = 0\<rparr>"

definition keypad_state :: "INPUT_RECORD list \<Rightarrow> wc_state" where
  "keypad_state q = example_state\<lparr>
     wins := [1 \<mapsto> example_window\<lparr>w_flags := WC_WKEYPAD\<rparr>],
     con := example_console\<lparr>con_input := q\<rparr>\<rparr>"

definition key_waiting_state :: wc_state where
  "key_waiting_state = two_window_state\<lparr>con := example_console\<lparr>con_input := [key_down 0x41 97]\<rparr>\<rparr>"

section \<open>Facts about the integer conversions\<close>

lemma sint_to_SHORT:
  assumes "- (2 ^ 15) \<le> sint v" and "sint v < 2 ^ 15"
  shows "sint (to_SHORT v) = sint v"
proof -
  have "(ucast v :: SHORT) = scast v"
    by (simp add: down_cast_same is_down)
  also have "\<dots> = word_of_int (sint v)"
    by simp
  finally have "sint (to_SHORT v) = signed_take_bit 15 (sint v)"
    unfolding to_SHORT_def by (simp only: sint_sbintrunc') simp
  also have "\<dots> = sint v"
    using assms by (simp add: signed_take_bit_int_eq_self)
  finally show ?thesis .
qed

lemma sint_to_SHORT_below:
  assumes "0 \<le> sint v" and "sint v < sint (s :: SHORT)"
  shows "sint (to_SHORT v) = sint v"
proof -
  have "sint s < 2 ^ 15"
    using sint_lt [of s] by simp
  with assms show ?thesis
    by (intro sint_to_SHORT) linarith+
qed

section \<open>Facts about the operations\<close>

lemma wmove_inside:
  assumes "wins st win = Some w"
    and "0 \<le> sint y" "sint y < sint (Y (w_size w))" "0 \<le> sint x" "sint x < sint (X (w_size w))"
  shows "wmove st win y x =
           Some (OK, st\<lparr>wins := (wins st)(win \<mapsto> w\<lparr>w_cur := \<lparr>X = to_SHORT x, Y = to_SHORT y\<rparr>\<rparr>)\<rparr>)"
    and "sint (to_SHORT y) = sint y" and "sint (to_SHORT x) = sint x"
proof -
  from assms have "\<not> (sint (Y (w_size w)) \<le> sint y \<or> sint (X (w_size w)) \<le> sint x \<or> sint y < 0 \<or> sint x < 0)"
    by linarith
  then show "wmove st win y x =
      Some (OK, st\<lparr>wins := (wins st)(win \<mapsto> w\<lparr>w_cur := \<lparr>X = to_SHORT x, Y = to_SHORT y\<rparr>\<rparr>)\<rparr>)"
    using assms(1) by (simp add: wmove_def)
  show "sint (to_SHORT y) = sint y"
    using assms by (intro sint_to_SHORT_below [of y "Y (w_size w)"])
  show "sint (to_SHORT x) = sint x"
    using assms by (intro sint_to_SHORT_below [of x "X (w_size w)"])
qed

lemma wmove_outside:
  assumes "wins st win = Some w"
    and "sint y < 0 \<or> sint x < 0 \<or> sint (Y (w_size w)) \<le> sint y \<or> sint (X (w_size w)) \<le> sint x"
  shows "wmove st win y x = Some (ERR, st)"
proof -
  from assms(2) have "sint (Y (w_size w)) \<le> sint y \<or> sint (X (w_size w)) \<le> sint x \<or> sint y < 0 \<or> sint x < 0"
    by blast
  then show ?thesis
    using assms(1) by (simp add: wmove_def)
qed

lemma same_shape_refl: "same_shape st st"
  by (simp add: same_shape_def)

lemma same_shape_trans: "same_shape a b \<Longrightarrow> same_shape b c \<Longrightarrow> same_shape a c"
  by (simp add: same_shape_def)

lemma same_shape_window:
  assumes "same_shape st st'" and "wins st v = Some w"
  shows "\<exists>w'. wins st' v = Some w' \<and> w_size w' = w_size w \<and> w_hcon w' = w_hcon w
           \<and> w_bbuf w' = w_bbuf w \<and> w_flags w' = w_flags w"
proof -
  from assms(1)
  have "map_option (\<lambda>w. (w_size w, w_hcon w, w_bbuf w, w_prim w, w_flags w, w_rect w)) (wins st' v)
      = map_option (\<lambda>w. (w_size w, w_hcon w, w_bbuf w, w_prim w, w_flags w, w_rect w)) (wins st v)"
    unfolding same_shape_def by blast
  with assms(2) show ?thesis
    by auto
qed

lemma same_shape_writable:
  assumes "same_shape st st'" and "writable st win"
  shows "writable st' win"
proof (cases "win = NULL")
  case True
  then show ?thesis
    by (simp add: writable_def)
next
  case False
  with assms(2) obtain w where w: "wins st win = Some w"
    and ok: "array_at (w_hcon w) (sint (w_bbuf w)) \<noteq> None" "sint (X (w_size w)) \<noteq> 0"
    by (auto simp: writable_def split: option.splits)
  from same_shape_window [OF assms(1) w] ok show ?thesis
    by (auto simp: writable_def)
qed

lemma same_shape_formats:
  assumes "same_shape st st'" and "formats st fmt"
  shows "formats st' fmt"
proof -
  from assms(2) obtain sw where sw: "wins st (stdscr st) = Some sw"
    and k: "0 \<le> fst (vsprintf_s (sint (Y (w_size sw)) * sint (X (w_size sw))) fmt)"
    by (auto simp: formats_def split: option.splits)
  have "stdscr st' = stdscr st"
    using assms(1) by (simp add: same_shape_def)
  with same_shape_window [OF assms(1) sw] k show ?thesis
    by (auto simp: formats_def)
qed

lemma wmove_shape:
  assumes "wmove st win y x = Some (r, st')"
  shows "same_shape st st' \<and> (\<forall>v. v \<noteq> win \<longrightarrow> wins st' v = wins st v)"
  using assms
  by (auto simp: wmove_def same_shape_def split: if_splits bind_splits)

lemma wmove_returns:
  assumes "wins st win = Some w"
  shows "\<exists>m st'. wmove st win y x = Some (m, st') \<and> same_shape st st'"
  using assms by (auto simp: wmove_def same_shape_def)

lemma waddch_shape:
  assumes "waddch st win ch = Some (r, st')"
  shows "same_shape st st' \<and> (\<forall>v. v \<noteq> win \<longrightarrow> wins st' v = wins st v)"
  using assms
  by (auto simp: waddch_def Let_def same_shape_def split: if_splits option.splits bind_splits)

lemma waddch_returns:
  assumes "writable st win"
  shows "\<exists>r st'. waddch st win ch = Some (r, st') \<and> same_shape st st'"
proof (cases "win = NULL")
  case True
  then show ?thesis
    by (simp add: waddch_def same_shape_refl)
next
  case False
  with assms obtain w hb where w: "wins st win = Some w"
    and hb: "array_at (w_hcon w) (sint (w_bbuf w)) = Some hb" and x: "sint (X (w_size w)) \<noteq> 0"
    by (auto simp: writable_def split: option.splits)
  show ?thesis
    using False w hb x
    by (auto simp: waddch_def Let_def same_shape_def split: option.splits)
qed

lemma put_string_returns:
  "writable st win \<Longrightarrow> \<exists>st'. put_string st win s = Some st' \<and> same_shape st st'"
proof (induction s arbitrary: st)
  case Nil
  then show ?case
    by (simp add: same_shape_refl)
next
  case (Cons ch s)
  from waddch_returns [OF Cons.prems, of ch] obtain r st1
    where a: "waddch st win ch = Some (r, st1)" and sh: "same_shape st st1"
    by blast
  show ?case
  proof (cases "ch = 0 \<or> r \<noteq> OK")
    case True
    then show ?thesis
      using a sh by (auto simp: same_shape_refl)
  next
    case False
    from Cons.IH [OF same_shape_writable [OF sh Cons.prems]] obtain st'
      where "put_string st1 win s = Some st'" "same_shape st1 st'"
      by blast
    then show ?thesis
      using False a sh by (auto intro: same_shape_trans)
  qed
qed

lemma va_wprintw_returns:
  assumes "formats st fmt" and "writable st win"
  shows "\<exists>st'. va_wprintw st win fmt = Some (OK, st')"
proof -
  from assms(1) obtain sw where sw: "wins st (stdscr st) = Some sw"
    and k: "0 \<le> fst (vsprintf_s (sint (Y (w_size sw)) * sint (X (w_size sw))) fmt)"
    by (auto simp: formats_def split: option.splits)
  obtain k' s where v: "vsprintf_s (sint (Y (w_size sw)) * sint (X (w_size sw))) fmt = (k', s)"
    by (cases "vsprintf_s (sint (Y (w_size sw)) * sint (X (w_size sw))) fmt")
  from put_string_returns [OF assms(2), of s] obtain st' where "put_string st win s = Some st'"
    by blast
  then show ?thesis
    using sw k v by (simp add: va_wprintw_def)
qed

lemma put_string_stops:
  "written st win pre = Some st1 \<Longrightarrow> ch \<noteq> 0 \<Longrightarrow> waddch st1 win ch = Some (r, st2) \<Longrightarrow> r \<noteq> OK
     \<Longrightarrow> put_string st win (pre @ ch # post) = Some st2"
proof (induction pre arbitrary: st)
  case Nil
  then show ?case
    by simp
next
  case (Cons a pre)
  from Cons.prems(1) obtain st' where a: "a \<noteq> 0" "waddch st win a = Some (OK, st')"
    and w: "written st' win pre = Some st1"
    by (auto split: if_splits option.splits)
  from Cons.IH [OF w Cons.prems(2,3,4)] show ?case
    using a by simp
qed

lemma va_wprintw_stops:
  assumes "formats st (Some (pre @ ch # post))"
    and "written st win pre = Some st1" "ch \<noteq> 0" "waddch st1 win ch = Some (r, st2)" "r \<noteq> OK"
  shows "va_wprintw st win (Some (pre @ ch # post)) = Some (OK, st2)"
proof -
  from assms(1) obtain sw where sw: "wins st (stdscr st) = Some sw"
    and k: "0 \<le> fst (vsprintf_s (sint (Y (w_size sw)) * sint (X (w_size sw))) (Some (pre @ ch # post)))"
    by (auto simp: formats_def split: option.splits)
  from k have v: "vsprintf_s (sint (Y (w_size sw)) * sint (X (w_size sw))) (Some (pre @ ch # post))
      = (int (length (pre @ ch # post)), pre @ ch # post)"
    by (auto simp: vsprintf_s_def split: if_splits)
  show ?thesis
    using sw v put_string_stops [OF assms(2-5), of post]
    by (simp add: va_wprintw_def del: put_string.simps)
qed

lemma echo_input_shape:
  assumes "echo_input st ch = Some st'"
  shows "same_shape st st' \<and> (\<forall>v. v \<noteq> stdscr st \<longrightarrow> wins st' v = wins st v)"
proof (cases "flags st AND WC_ECHO \<noteq> 0")
  case True
  with assms obtain r where "waddch st (stdscr st) ch = Some (r, st')"
    by (auto simp: echo_input_def addch_def)
  from waddch_shape [OF this] show ?thesis
    by simp
next
  case False
  with assms show ?thesis
    by (simp add: echo_input_def same_shape_refl)
qed

lemma echo_input_returns:
  assumes "flags st AND WC_ECHO = 0 \<or> writable st (stdscr st)"
  shows "\<exists>st'. echo_input st ch = Some st'"
proof (cases "flags st AND WC_ECHO \<noteq> 0")
  case True
  with assms have "writable st (stdscr st)"
    by simp
  from waddch_returns [OF this, of ch] show ?thesis
    using True by (auto simp: echo_input_def addch_def)
next
  case False
  then show ?thesis
    by (simp add: echo_input_def)
qed

lemma wgetch_frame:
  assumes "wgetch st win = Some (r, st')"
  shows "stdscr st' = stdscr st \<and> (\<forall>v. v \<noteq> stdscr st \<longrightarrow> wins st' v = wins st v)"
proof -
  from assms obtain w ev q where w: "wins st win = Some w"
    and p: "poll_input (w_flags w AND WC_NODELAY \<noteq> 0) (con_input (con st)) = Some (ev, q)"
    by (auto simp: wgetch_def split: bind_splits)
  define st1 where "st1 = st\<lparr>con := (con st)\<lparr>con_input := q\<rparr>\<rparr>"
  show ?thesis
  proof (cases ev)
    case None
    then show ?thesis
      using assms w p by (auto simp: wgetch_def)
  next
    case (Some c)
    with assms w p have e: "echo_input st1 (AsciiChar c) = Some st'"
      unfolding wgetch_def st1_def by (auto simp: Let_def split: bind_splits)
    from echo_input_shape [OF e] show ?thesis
      by (simp add: same_shape_def st1_def)
  qed
qed

lemma translate_key_table:
  "translate_key vk r = (case map_of keypad_keys vk of None \<Rightarrow> r | Some k \<Rightarrow> k)"
  by (simp add: translate_key_def keypad_keys_def)

lemma region_cell_in_rect:
  assumes "in_rect rect (r, c)" and "moved_whole ext dims rect"
  shows "region_cell ext dims \<lparr>X = 0, Y = 0\<rparr> rect (r, c) = Some (r - sint (Top rect), c - sint (Left rect))"
  using assms by (simp add: region_cell_def in_rect_def in_buffer_def moved_whole_def)

lemma array_cell_in_rect:
  assumes "in_rect rect (r, c)" and "moved_whole ext dims rect"
  shows "array_cell ext dims \<lparr>X = 0, Y = 0\<rparr> rect (r - sint (Top rect), c - sint (Left rect)) = Some (r, c)"
  using assms by (simp add: array_cell_def in_rect_def in_buffer_def moved_whole_def)

lemma in_rect_in_buffer:
  assumes "in_rect rect p" and "moved_whole ext dims rect"
  shows "in_buffer ext p"
  using assms by (cases p) (simp add: in_rect_def in_buffer_def moved_whole_def)

lemma used_region_whole:
  assumes "moved_whole ext dims rect"
  shows "used_region ext dims \<lparr>X = 0, Y = 0\<rparr> rect = rect"
proof -
  from assms have "max (sint (Left rect)) (max 0 (sint (Left rect))) = sint (Left rect)"
    and "max (sint (Top rect)) (max 0 (sint (Top rect))) = sint (Top rect)"
    and "min (sint (Right rect)) (min (sint (X ext) - 1) (sint (Left rect) + (sint (X dims) - 1)))
          = sint (Right rect)"
    and "min (sint (Bottom rect)) (min (sint (Y ext) - 1) (sint (Top rect) + (sint (Y dims) - 1)))
          = sint (Bottom rect)"
    by (simp_all add: moved_whole_def)
  then show ?thesis
    by (simp add: used_region_def)
qed

lemma ignoring_failure_Some: "ignoring_failure c (Some c') = c'"
  by (simp add: ignoring_failure_def)

lemma color_state_fields:
  "flags color_state = WC_COLOR"
  "color_pairs color_state = replicate 64 \<lparr>pair_f = 0, pair_b = 0\<rparr>"
  by (simp_all add: color_state_def state_after_def
      start_color_def has_colors_def HAS_COLORS_def TRUE_def set_color_def array_upd_def
      example_state_def init_pair_def WC_COLOR_def attrset_def wattrset_def getattrs_def array_at_def
      COLOR_PAIR_def A_BOLD_def A_REVERSE_def A_STANDOUT_def A_UNDERLINE_def NUM_COLORS_def MAX_NUM_PAIRS_def
      COLOR_BLACK_def COLOR_BLUE_def COLOR_GREEN_def COLOR_CYAN_def COLOR_RED_def COLOR_MAGENTA_def
      COLOR_YELLOW_def COLOR_WHITE_def OK_def ERR_def)

lemmas example_defs =
  example_state_def example_window_def example_console_def example_window2_def two_window_state_def
  scrolled_window_def scrolled_state_def blank_buffer_def dead_buffer_state_def keypad_state_def key_waiting_state_def key_down_def
  mouse_event_def blank_cell_def X_cell_def

lemmas virtual_key_defs =
  VK_CANCEL_def VK_BACK_def VK_CLEAR_def VK_RETURN_def VK_CONTROL_def VK_ESCAPE_def VK_PRIOR_def
  VK_NEXT_def VK_END_def VK_HOME_def VK_LEFT_def VK_UP_def VK_RIGHT_def VK_DOWN_def VK_SELECT_def
  VK_PRINT_def VK_INSERT_def VK_DELETE_def VK_HELP_def VK_NUMPAD1_def VK_NUMPAD2_def VK_NUMPAD3_def
  VK_NUMPAD4_def VK_NUMPAD5_def VK_NUMPAD6_def VK_NUMPAD7_def VK_NUMPAD8_def VK_NUMPAD9_def
  VK_F1_def VK_F2_def VK_F3_def VK_F4_def VK_F5_def VK_F6_def VK_F7_def VK_F8_def VK_F9_def
  VK_F10_def VK_F11_def VK_F12_def VK_F13_def VK_F14_def VK_F15_def VK_F16_def VK_F17_def
  VK_F18_def VK_F19_def VK_F20_def VK_F21_def VK_F22_def VK_F23_def VK_F24_def

lemmas key_code_defs =
  KEY_DOWN_def KEY_UP_def KEY_LEFT_def KEY_RIGHT_def KEY_HOME_def KEY_BACKSPACE_def KEY_F0_def
  KEY_DC_def KEY_IC_def KEY_CLEAR_def KEY_NPAGE_def KEY_PPAGE_def KEY_ENTER_def KEY_PRINT_def
  KEY_A1_def KEY_A3_def KEY_B2_def KEY_C1_def KEY_C3_def KEY_CANCEL_def KEY_COMMAND_def KEY_END_def
  KEY_EXIT_def KEY_HELP_def KEY_SELECT_def KEY_F_def

section \<open>The claims\<close>

text \<open>
  What \<^verbatim>\<open>refresh\<close> does when the window's rectangle lies inside both screen buffers
  and has no more rows and columns than \<^verbatim>\<open>size\<close>: it returns \<^verbatim>\<open>OK\<close>, leaves the
  rectangle as it is, swaps the two indices, and both buffers then hold, at every cell of
  the rectangle, the cell the back buffer held before.
\<close>

lemma refresh_copies_rectangle:
  assumes w: "wins st (stdscr st) = Some w"
    and hp: "array_at (w_hcon w) (sint (w_prim w)) = Some hp"
    and hb: "array_at (w_hcon w) (sint (w_bbuf w)) = Some hb"
    and bp: "con_screen (con st) hp = Some bp"
    and bb: "con_screen (con st) hb = Some bb"
    and mp: "moved_whole (sb_size bp) (w_size w) (w_rect w)"
    and mb: "moved_whole (sb_size bb) (w_size w) (w_rect w)"
  shows "\<exists>st' w'. refresh st = Some (OK, st') \<and> stdscr st' = stdscr st
          \<and> wins st' (stdscr st') = Some w'
          \<and> w' = w\<lparr>w_prim := lnot (w_prim w), w_bbuf := lnot (lnot (w_prim w))\<rparr>
          \<and> (\<forall>p. in_rect (w_rect w) p \<longrightarrow>
                cell_of st' hp p = Some (sb_cells bb p) \<and> cell_of st' hb p = Some (sb_cells bb p))"
proof -
  let ?orig = "\<lparr>X = 0, Y = 0\<rparr>"
  let ?size = "\<lparr>X = X (w_size w), Y = Y (w_size w)\<rparr>"
  let ?c1 = "ignoring_failure (con st) (SetConsoleActiveScreenBuffer (con st) hb)"
  let ?c2 = "ignoring_failure ?c1 (SetConsoleCursorPosition ?c1 hb (w_cur w))"
  have mp': "moved_whole (sb_size bp) ?size (w_rect w)" and mb': "moved_whole (sb_size bb) ?size (w_rect w)"
    using mp mb by (simp_all add: moved_whole_def)
  have s2: "con_screen ?c2 = con_screen (con st)"
    using bb by (simp add: ignoring_failure_def SetConsoleActiveScreenBuffer_def
        SetConsoleCursorPosition_def)
  define tbuf where
    "tbuf = (\<lambda>q. case array_cell (sb_size bb) ?size ?orig (w_rect w) q of
                   None \<Rightarrow> fresh_mem st q | Some p \<Rightarrow> sb_cells bb p)"
  have rd: "ReadConsoleOutput ?c2 hb (fresh_mem st) ?size ?orig (w_rect w) = Some (tbuf, w_rect w)"
    using bb by (simp add: ReadConsoleOutput_def s2 tbuf_def used_region_whole [OF mb'])
  define g' where
    "g' = (\<lambda>p. case region_cell (sb_size bp) ?size ?orig (w_rect w) p of
                 None \<Rightarrow> sb_cells bp p | Some q \<Rightarrow> tbuf q)"
  define c3 where "c3 = ?c2\<lparr>con_screen := (con_screen ?c2)(hp \<mapsto> bp\<lparr>sb_cells := g'\<rparr>)\<rparr>"
  have wr: "WriteConsoleOutput ?c2 hp tbuf ?size ?orig (w_rect w) = Some (c3, w_rect w)"
    using bp by (simp add: WriteConsoleOutput_def s2 c3_def g'_def used_region_whole [OF mp'])
  define w' where "w' = w\<lparr>w_prim := lnot (w_prim w), w_bbuf := lnot (lnot (w_prim w))\<rparr>"
  define st' where "st' = st\<lparr>con := c3, wins := (wins st)(stdscr st \<mapsto> w')\<rparr>"
  have run: "refresh st = Some (OK, st')"
    unfolding refresh_def Let_def
    by (simp add: w hp hb rd wr st'_def w'_def)
  have cell: "g' p = sb_cells bb p" if "in_rect (w_rect w) p" for p
  proof -
    obtain r c where p: "p = (r, c)"
      by (cases p)
    show ?thesis
      using that unfolding p g'_def tbuf_def
      by (simp add: region_cell_in_rect [OF _ mp'] array_cell_in_rect [OF _ mb'])
  qed
  have "cell_of st' hp p = Some (sb_cells bb p) \<and> cell_of st' hb p = Some (sb_cells bb p)"
    if "in_rect (w_rect w) p" for p
    using cell [OF that] bb in_rect_in_buffer [OF that mp] in_rect_in_buffer [OF that mb]
    by (simp add: cell_of_def st'_def c3_def s2)
  moreover have "wins st' (stdscr st') = Some w'" and "stdscr st' = stdscr st"
    by (simp_all add: st'_def)
  ultimately show ?thesis
    using run w'_def by blast
qed

text \<open>
  C1. After every \<^verbatim>\<open>refresh\<close> the two screen buffers are claimed to hold the same
  cells. In the default window of a console that has scrolled, \<^verbatim>\<open>rect\<close> is rows 100 to
  124, while the two buffers have rows 0 to 24 and the window is drawn from row 0.
  \<^verbatim>\<open>addch('X')\<close> writes the X at row 0, column 0 of the back buffer (handle 11);
  \<^verbatim>\<open>refresh\<close> then returns \<^verbatim>\<open>OK\<close> and swaps the indices, but its transfers take
  \<^verbatim>\<open>rect\<close> as their region, which lies outside the buffers, and move nothing: the cell
  at row 0, column 0 is the X in one buffer and still blank in the other. In the example
  state, where \<^verbatim>\<open>rect\<close> starts at row 0, the same two calls leave the X in both.
\<close>

theorem refresh_in_scrolled_console:
  "returned (addch scrolled_state 88) = Some OK
   \<and> returned (refresh (state_after (addch scrolled_state 88))) = Some OK
   \<and> cell_of (state_after (refresh (state_after (addch scrolled_state 88)))) 11 (0, 0) = Some X_cell
   \<and> cell_of (state_after (refresh (state_after (addch scrolled_state 88)))) 10 (0, 0) = Some blank_cell
   \<and> X_cell \<noteq> blank_cell
   \<and> map_option w_prim (wins (state_after (refresh (state_after (addch scrolled_state 88)))) 1) = Some 1
   \<and> map_option w_bbuf (wins (state_after (refresh (state_after (addch scrolled_state 88)))) 1) = Some 0
   \<and> cell_of (state_after (refresh (state_after (addch example_state 88)))) 11 (0, 0) = Some X_cell
   \<and> cell_of (state_after (refresh (state_after (addch example_state 88)))) 10 (0, 0) = Some X_cell"
  by (simp add: returned_def state_after_def addch_def waddch_def refresh_def cell_of_def
      WriteConsoleOutput_def ReadConsoleOutput_def SetConsoleActiveScreenBuffer_def
      SetConsoleCursorPosition_def ignoring_failure_def region_cell_def array_cell_def
      used_region_def in_buffer_def array_at_def lnot_def NULL_def OK_def Let_def
      signed_modulo_int_def example_defs)

text \<open>
  C2. \<^verbatim>\<open>PAIR_NUMBER(COLOR_PAIR(p))\<close> is claimed to be \<open>p\<close> for every pair index below
  64. At \<open>p = 32\<close> the code gives \<open>-32\<close>: the left shift by 26 sets the sign bit of the
  \<^verbatim>\<open>int\<close>, and the right shift of \<^verbatim>\<open>A_COLOR_DATA\<close> brings it back down with the sign.
  At \<open>p = 31\<close> it gives 31.
\<close>

theorem pair_number_of_color_pair_32:
  "sint (PAIR_NUMBER (COLOR_PAIR 32)) = - 32
   \<and> PAIR_NUMBER (COLOR_PAIR 32) \<noteq> 32
   \<and> PAIR_NUMBER (COLOR_PAIR 31) = 31"
  by (simp add: PAIR_NUMBER_def COLOR_PAIR_def A_COLOR_DATA_def COLOR_BITS_def)

text \<open>
  C3. \<^verbatim>\<open>init_pair(0, f, b)\<close> returns \<^verbatim>\<open>ERR\<close> in every state. \<^verbatim>\<open>pair_content\<close> is
  claimed to yield the pair's colours through its output parameters; it never stores
  through them, so the caller's variables are what they were. In the example state after
  \<^verbatim>\<open>start_color\<close>, \<^verbatim>\<open>init_pair(1, COLOR_RED, COLOR_BLACK)\<close> returns \<^verbatim>\<open>OK\<close> and stores
  (4, 0) in the table; \<^verbatim>\<open>pair_content(1, &f, &b)\<close>, with \<open>f\<close> and \<open>b\<close> both 7 before
  the call, returns \<^verbatim>\<open>OK\<close> and leaves both 7.
\<close>

theorem pair_content_stores_nothing:
  "returned (init_pair st 0 fg bg) = Some ERR
   \<and> snd (snd (pair_content st mem pair f b)) = mem
   \<and> returned (init_pair color_state 1 (to_SHORT COLOR_RED) (to_SHORT COLOR_BLACK)) = Some OK
   \<and> array_at (color_pairs (state_after (init_pair color_state 1 (to_SHORT COLOR_RED) (to_SHORT COLOR_BLACK)))) 1
       = Some \<lparr>pair_f = 4, pair_b = 0\<rparr>
   \<and> fst (pair_content (state_after (init_pair color_state 1 (to_SHORT COLOR_RED) (to_SHORT COLOR_BLACK)))
        (\<lambda>v. 7) 1 (Caller_var 0) (Caller_var 1)) = OK
   \<and> snd (snd (pair_content (state_after (init_pair color_state 1 (to_SHORT COLOR_RED) (to_SHORT COLOR_BLACK)))
        (\<lambda>v. 7) 1 (Caller_var 0) (Caller_var 1))) 0 = 7
   \<and> snd (snd (pair_content (state_after (init_pair color_state 1 (to_SHORT COLOR_RED) (to_SHORT COLOR_BLACK)))
        (\<lambda>v. 7) 1 (Caller_var 0) (Caller_var 1))) 1 = 7"
proof -
  have "returned (init_pair st 0 fg bg) = Some ERR"
    by (simp add: init_pair_def returned_def split: prod.splits)
  moreover have "snd (snd (pair_content st mem pair f b)) = mem"
    by (simp add: pair_content_def split: prod.splits)
  moreover have "returned (init_pair color_state 1 (to_SHORT COLOR_RED) (to_SHORT COLOR_BLACK)) = Some OK
   \<and> array_at (color_pairs (state_after (init_pair color_state 1 (to_SHORT COLOR_RED) (to_SHORT COLOR_BLACK)))) 1
       = Some \<lparr>pair_f = 4, pair_b = 0\<rparr>
   \<and> fst (pair_content (state_after (init_pair color_state 1 (to_SHORT COLOR_RED) (to_SHORT COLOR_BLACK)))
        (\<lambda>v. 7) 1 (Caller_var 0) (Caller_var 1)) = OK
   \<and> snd (snd (pair_content (state_after (init_pair color_state 1 (to_SHORT COLOR_RED) (to_SHORT COLOR_BLACK)))
        (\<lambda>v. 7) 1 (Caller_var 0) (Caller_var 1))) 0 = 7
   \<and> snd (snd (pair_content (state_after (init_pair color_state 1 (to_SHORT COLOR_RED) (to_SHORT COLOR_BLACK)))
        (\<lambda>v. 7) 1 (Caller_var 0) (Caller_var 1))) 1 = 7"
    by (simp add: returned_def state_after_def color_state_fields init_pair_def pair_content_def
        has_colors_def HAS_COLORS_def TRUE_def WC_COLOR_def MAX_NUM_PAIRS_def NUM_COLORS_def
        array_upd_def array_at_def to_SHORT_def COLOR_RED_def COLOR_BLACK_def OK_def ERR_def)
  ultimately show ?thesis
    by simp
qed

text \<open>
  C4. \<^verbatim>\<open>start_color\<close> is claimed to assign pair 0 to white on black. In the example
  state (the colour flag clear, the tables zeroed, as at program start) it returns
  \<^verbatim>\<open>OK\<close>, fills the eight colours, sets the colour flag and sets the default window's
  attributes to the encoding of pair 0; but its call \<^verbatim>\<open>init_pair(0, COLOR_WHITE,
  COLOR_BLACK)\<close> returns \<^verbatim>\<open>ERR\<close>, and pair 0 is still (0, 0), black on black.
\<close>

theorem start_color_leaves_pair_0:
  "returned (start_color example_state) = Some OK
   \<and> array_at (color_pairs (state_after (start_color example_state))) 0 = Some \<lparr>pair_f = 0, pair_b = 0\<rparr>
   \<and> array_at (colors (state_after (start_color example_state))) (sint COLOR_WHITE)
        = Some \<lparr>color_r = 1000, color_g = 1000, color_b = 1000\<rparr>
   \<and> flags (state_after (start_color example_state)) AND WC_COLOR = WC_COLOR
   \<and> map_option w_attrs (wins (state_after (start_color example_state)) 1) = Some (ucast (COLOR_PAIR 0))
   \<and> returned (init_pair example_state 0 (to_SHORT COLOR_WHITE) (to_SHORT COLOR_BLACK)) = Some ERR"
  by (simp add: returned_def state_after_def
      start_color_def has_colors_def HAS_COLORS_def TRUE_def set_color_def array_upd_def
      example_state_def init_pair_def WC_COLOR_def attrset_def wattrset_def getattrs_def array_at_def
      COLOR_PAIR_def A_BOLD_def A_REVERSE_def A_STANDOUT_def A_UNDERLINE_def NUM_COLORS_def MAX_NUM_PAIRS_def
      COLOR_BLACK_def COLOR_BLUE_def COLOR_GREEN_def COLOR_CYAN_def COLOR_RED_def COLOR_MAGENTA_def
      COLOR_YELLOW_def COLOR_WHITE_def OK_def ERR_def)

text \<open>
  C5. \<^verbatim>\<open>mvwprintw\<close> is claimed to restore the cursor of \<open>win\<close> when the write step
  fails. It saves and restores \<^verbatim>\<open>stdscr->cur\<close>. With the caller's window at address 2,
  cursor at row 2, column 3, and a format that cannot be rendered,
  \<^verbatim>\<open>mvwprintw(win, 5, 7, ...)\<close> returns \<^verbatim>\<open>ERR\<close> and leaves that window's cursor at
  (5, 7). \<^verbatim>\<open>mvprintw\<close>, on the default window, does put its cursor back.
\<close>

theorem mvwprintw_leaves_cursor_moved:
  "cursor_of two_window_state 2 = Some (2, 3)
   \<and> returned (mvwprintw two_window_state 2 5 7 None) = Some ERR
   \<and> cursor_of (state_after (mvwprintw two_window_state 2 5 7 None)) 2 = Some (5, 7)
   \<and> cursor_of two_window_state 1 = Some (0, 0)
   \<and> returned (mvprintw two_window_state 5 7 None) = Some ERR
   \<and> cursor_of (state_after (mvprintw two_window_state 5 7 None)) 1 = Some (0, 0)"
  by (simp add: returned_def state_after_def
      mvwprintw_def mvprintw_def wmove_def va_wprintw_def vsprintf_s_def restore_cursor_def cursor_of_def
      NULL_def ERR_def OK_def to_SHORT_def
      example_state_def example_window_def example_window2_def two_window_state_def)

text \<open>
  C6. \<^verbatim>\<open>cbreak\<close> is claimed to return \<^verbatim>\<open>OK\<close>, with the processed-input bit set, when
  every mode query and mode set succeeds. It returns \<^verbatim>\<open>ERR\<close> in every state, since
  \<^verbatim>\<open>setmode\<close> does; in the example state, where the input handle is alive and its mode is
  0, it returns \<^verbatim>\<open>ERR\<close> and the mode is still 0, the processed-input bit not set.
\<close>

theorem cbreak_returns_ERR:
  "fst (cbreak st) = ERR
   \<and> input_mode example_state = Some 0
   \<and> fst (cbreak example_state) = ERR
   \<and> input_mode (snd (cbreak example_state)) = Some 0"
proof -
  have "fst (cbreak st) = ERR" for st
    by (simp add: cbreak_def setmode_def clearmode_def split: option.splits prod.splits)
  moreover have "input_mode example_state = Some 0"
    by (simp add: input_mode_def GetConsoleMode_def example_state_def example_console_def)
  moreover have "input_mode (snd (cbreak example_state)) = Some 0"
    by (simp add: cbreak_def setmode_def clearmode_def input_mode_def GetConsoleMode_def
        SetConsoleMode_def example_state_def example_console_def ERR_def OK_def ENABLE_LINE_INPUT_def)
  ultimately show ?thesis
    by simp
qed

text \<open>
  C7, as stated: with the keypad flag set, the insert key is among the keys whose
  key-down event makes the read return the key's portable code. The \<^verbatim>\<open>switch\<close> has no
  case for \<^verbatim>\<open>VK_INSERT\<close>: the read returns the event's raw character, 0, and not
  \<^verbatim>\<open>KEY_IC\<close>.
\<close>

theorem wgetch_insert_key_is_raw:
  "returned (wgetch (keypad_state [key_down VK_INSERT 0]) 1) = Some (scast (AsciiChar (key_down VK_INSERT 0)))
   \<and> returned (wgetch (keypad_state [key_down VK_INSERT 0]) 1) \<noteq> Some KEY_IC"
  by (simp add: returned_def wgetch_def echo_input_def kbhit_def is_key_down_def translate_key_def
      example_defs KEY_EVENT_def WC_WKEYPAD_def WC_NODELAY_def WC_ECHO_def virtual_key_defs key_code_defs)

text \<open>
  C7, amended. With the window's keypad flag set, when the polling loop ends with a
  key-down event (and the echo, if it is on, can write to the default window), the read
  returns the key code that \<open>keypad_keys\<close> gives for the event's virtual-key code
  (escape, cancel, backspace, clear, enter, control; page up, page down, end, home; the
  arrows; select, print, delete, help; the numeric keypad's 1 to 9; F1 to F24), and the
  event's raw character for every other virtual-key code, the insert key's among them.
\<close>

theorem wgetch_keypad:
  assumes w: "wins st win = Some w"
    and kp: "w_flags w AND WC_WKEYPAD \<noteq> 0"
    and ev: "poll_input (w_flags w AND WC_NODELAY \<noteq> 0) (con_input (con st)) = Some (Some c, q)"
    and echo: "flags st AND WC_ECHO = 0 \<or> writable st (stdscr st)"
  shows "returned (wgetch st win) =
           Some (case map_of keypad_keys (wVirtualKeyCode c) of
                   Some k \<Rightarrow> k
                 | None \<Rightarrow> scast (AsciiChar c))"
proof -
  define st1 where "st1 = st\<lparr>con := (con st)\<lparr>con_input := q\<rparr>\<rparr>"
  have sh1: "same_shape st st1"
    by (simp add: same_shape_def st1_def)
  have "flags st1 AND WC_ECHO = 0 \<or> writable st1 (stdscr st1)"
    using echo same_shape_writable [OF sh1, of "stdscr st"] by (auto simp: st1_def)
  from echo_input_returns [OF this, of "AsciiChar c"] obtain st2
    where e: "echo_input st1 (AsciiChar c) = Some st2"
    by blast
  from echo_input_shape [OF e] have sh2: "same_shape st1 st2"
    by simp
  from same_shape_window [OF same_shape_trans [OF sh1 sh2] w] obtain w2
    where w2: "wins st2 win = Some w2" "w_flags w2 = w_flags w"
    by blast
  have "wgetch st win = Some (translate_key (wVirtualKeyCode c) (scast (AsciiChar c)), st2)"
    using w ev e w2 kp unfolding wgetch_def st1_def by simp
  then show ?thesis
    by (simp add: returned_def translate_key_table split: option.splits)
qed

theorem wgetch_keypad_witness:
  "returned (wgetch (keypad_state [mouse_event, key_down VK_F5 0, key_down VK_LEFT 0]) 1) = Some 269
   \<and> returned (wgetch (keypad_state [key_down VK_LEFT 0]) 1) = Some 260
   \<and> returned (wgetch (keypad_state [key_down 0x41 97]) 1) = Some 97"
proof -
  let ?w = "example_window\<lparr>w_flags := WC_WKEYPAD\<rparr>"
  have w: "wins (keypad_state q) 1 = Some ?w" for q
    by (simp add: example_defs)
  have kp: "w_flags ?w AND WC_WKEYPAD \<noteq> 0"
    by (simp add: WC_WKEYPAD_def)
  have echo: "flags (keypad_state q) AND WC_ECHO = 0 \<or> writable (keypad_state q) (stdscr (keypad_state q))" for q
    by (simp add: example_defs)
  have ev1: "poll_input (w_flags ?w AND WC_NODELAY \<noteq> 0)
      (con_input (con (keypad_state [mouse_event, key_down VK_F5 0, key_down VK_LEFT 0])))
      = Some (Some (key_down VK_F5 0), [key_down VK_LEFT 0])"
    by (simp add: example_defs kbhit_def is_key_down_def KEY_EVENT_def)
  have ev2: "poll_input (w_flags ?w AND WC_NODELAY \<noteq> 0) (con_input (con (keypad_state [key_down VK_LEFT 0])))
      = Some (Some (key_down VK_LEFT 0), [])"
    by (simp add: example_defs kbhit_def is_key_down_def KEY_EVENT_def)
  have ev3: "poll_input (w_flags ?w AND WC_NODELAY \<noteq> 0) (con_input (con (keypad_state [key_down 0x41 97])))
      = Some (Some (key_down 0x41 97), [])"
    by (simp add: example_defs kbhit_def is_key_down_def KEY_EVENT_def)
  show ?thesis
    using wgetch_keypad [OF w kp ev1 echo] wgetch_keypad [OF w kp ev2 echo]
      wgetch_keypad [OF w kp ev3 echo]
    by (simp add: keypad_keys_def key_down_def virtual_key_defs key_code_defs)
qed

text \<open>
  C8. For every window and every (row, col) with \<open>0 \<le> row < rows\<close> and
  \<open>0 \<le> col < cols\<close>, \<^verbatim>\<open>wmove\<close> returns \<^verbatim>\<open>OK\<close> and afterwards the window's cursor
  is (row, col), nothing else of the state having changed; for every (row, col) with a
  coordinate that is negative or not below the corresponding size, \<^verbatim>\<open>wmove\<close> returns
  \<^verbatim>\<open>ERR\<close> and leaves the whole state, the cursor included, as it was.
\<close>

theorem wmove_bounds:
  assumes "wins st win = Some w"
  shows "(0 \<le> sint row \<and> sint row < sint (Y (w_size w)) \<and> 0 \<le> sint col \<and> sint col < sint (X (w_size w))
            \<longrightarrow> (\<exists>st'. wmove st win row col = Some (OK, st')
                   \<and> cursor_of st' win = Some (sint row, sint col)
                   \<and> st' = st\<lparr>wins := (wins st)(win \<mapsto> w\<lparr>w_cur := w_cur (the (wins st' win))\<rparr>)\<rparr>))
       \<and> (sint row < 0 \<or> sint col < 0 \<or> sint (Y (w_size w)) \<le> sint row \<or> sint (X (w_size w)) \<le> sint col
            \<longrightarrow> wmove st win row col = Some (ERR, st))"
proof (intro conjI impI)
  assume inb: "0 \<le> sint row \<and> sint row < sint (Y (w_size w)) \<and> 0 \<le> sint col \<and> sint col < sint (X (w_size w))"
  then have "wmove st win row col =
      Some (OK, st\<lparr>wins := (wins st)(win \<mapsto> w\<lparr>w_cur := \<lparr>X = to_SHORT col, Y = to_SHORT row\<rparr>\<rparr>)\<rparr>)"
    and "sint (to_SHORT row) = sint row" and "sint (to_SHORT col) = sint col"
    using wmove_inside [OF assms, of row col] by simp_all
  then show "\<exists>st'. wmove st win row col = Some (OK, st')
      \<and> cursor_of st' win = Some (sint row, sint col)
      \<and> st' = st\<lparr>wins := (wins st)(win \<mapsto> w\<lparr>w_cur := w_cur (the (wins st' win))\<rparr>)\<rparr>"
    by (simp add: cursor_of_def)
next
  assume "sint row < 0 \<or> sint col < 0 \<or> sint (Y (w_size w)) \<le> sint row \<or> sint (X (w_size w)) \<le> sint col"
  then show "wmove st win row col = Some (ERR, st)"
    by (rule wmove_outside [OF assms])
qed

theorem wmove_bounds_witness:
  "wins example_state 1 = Some example_window
   \<and> (\<exists>st'. wmove example_state 1 24 79 = Some (OK, st') \<and> cursor_of st' 1 = Some (24, 79))
   \<and> wmove example_state 1 25 0 = Some (ERR, example_state)
   \<and> wmove example_state 1 0 (- 1) = Some (ERR, example_state)"
proof -
  have w: "wins example_state 1 = Some example_window"
    by (simp add: example_state_def)
  have s: "sint (Y (w_size example_window)) = 25" "sint (X (w_size example_window)) = 80"
    by (simp_all add: example_window_def)
  show ?thesis
    using wmove_bounds [OF w, of 24 79] wmove_bounds [OF w, of 25 0] wmove_bounds [OF w, of 0 "- 1"] w s
    by auto
qed

text \<open>
  C9. Whenever formatting into the temporary buffer succeeds, \<^verbatim>\<open>va_wprintw\<close> returns
  \<^verbatim>\<open>OK\<close>, whatever \<^verbatim>\<open>waddch\<close> returns on the characters of the text; and so do
  \<^verbatim>\<open>wprintw\<close> and \<^verbatim>\<open>mvwprintw\<close> on a window that is not \<^verbatim>\<open>NULL\<close>, and \<^verbatim>\<open>printw\<close>
  and \<^verbatim>\<open>mvprintw\<close> on the default window. When the characters before some character
  of the text have been written and \<^verbatim>\<open>waddch\<close> does not return \<^verbatim>\<open>OK\<close> on that one, the
  loop stops there: \<^verbatim>\<open>va_wprintw\<close> returns \<^verbatim>\<open>OK\<close> in the state that this \<^verbatim>\<open>waddch\<close>
  left, and the rest of the text is not written. The window written to is one that
  \<^verbatim>\<open>waddch\<close> can be called with.
\<close>

theorem printw_family_returns_OK:
  assumes "formats st fmt" and "writable st win"
  shows "returned (va_wprintw st win fmt) = Some OK
       \<and> (win \<noteq> NULL \<longrightarrow> returned (wprintw st win fmt) = Some OK
                          \<and> returned (mvwprintw st win y x fmt) = Some OK)
       \<and> (writable st (stdscr st) \<longrightarrow> returned (printw st fmt) = Some OK
                          \<and> returned (mvprintw st y x fmt) = Some OK)
       \<and> (\<forall>pre ch post st1 r st2.
             fmt = Some (pre @ ch # post) \<and> written st win pre = Some st1 \<and> ch \<noteq> 0
               \<and> waddch st1 win ch = Some (r, st2) \<and> r \<noteq> OK
             \<longrightarrow> va_wprintw st win fmt = Some (OK, st2))"
proof (intro conjI impI allI)
  show "returned (va_wprintw st win fmt) = Some OK"
    using va_wprintw_returns [OF assms] by (auto simp: returned_def)
  from assms(1) obtain sw where sw: "wins st (stdscr st) = Some sw"
    by (auto simp: formats_def split: option.splits)
  {
    assume n: "win \<noteq> NULL"
    show "returned (wprintw st win fmt) = Some OK"
      using n va_wprintw_returns [OF assms] by (auto simp: returned_def wprintw_def)
    from n assms(2) obtain w where w: "wins st win = Some w"
      by (auto simp: writable_def split: option.splits)
    from wmove_returns [OF w, of y x] obtain m st1
      where mv: "wmove st win y x = Some (m, st1)" and sh: "same_shape st st1"
      by blast
    from va_wprintw_returns [OF same_shape_formats [OF sh assms(1)] same_shape_writable [OF sh assms(2)]]
    obtain st2 where "va_wprintw st1 win fmt = Some (OK, st2)"
      by blast
    then show "returned (mvwprintw st win y x fmt) = Some OK"
      using n sw mv by (simp add: returned_def mvwprintw_def OK_def ERR_def)
  }
  {
    assume ws: "writable st (stdscr st)"
    show "returned (printw st fmt) = Some OK"
      using va_wprintw_returns [OF assms(1) ws] by (auto simp: returned_def printw_def)
    from wmove_returns [OF sw, of y x] obtain m st1
      where mv: "wmove st (stdscr st) y x = Some (m, st1)" and sh: "same_shape st st1"
      by blast
    have s1: "stdscr st1 = stdscr st"
      using sh by (simp add: same_shape_def)
    from va_wprintw_returns [OF same_shape_formats [OF sh assms(1)] same_shape_writable [OF sh ws]]
    obtain st2 where "va_wprintw st1 (stdscr st) fmt = Some (OK, st2)"
      by blast
    then show "returned (mvprintw st y x fmt) = Some OK"
      using sw mv s1 by (simp add: returned_def mvprintw_def OK_def ERR_def)
  }
  {
    fix pre ch post st1 r st2
    assume h: "fmt = Some (pre @ ch # post) \<and> written st win pre = Some st1 \<and> ch \<noteq> 0
        \<and> waddch st1 win ch = Some (r, st2) \<and> r \<noteq> OK"
    then have "formats st (Some (pre @ ch # post))"
      using assms(1) by simp
    from va_wprintw_stops [OF this, of win st1 r st2] h
    show "va_wprintw st win fmt = Some (OK, st2)"
      by simp
  }
qed

text \<open>
  The witness: the back buffer's handle is not alive, and the text is a newline, an A,
  a newline and a B. The newline is taken, \<^verbatim>\<open>waddch\<close> fails on the A, the loop stops
  there (the state is the one the first newline left, the cursor on row 1), and the calls
  return \<^verbatim>\<open>OK\<close>.
\<close>

theorem printw_family_returns_OK_witness:
  "formats dead_buffer_state (Some [10, 65, 10, 66])
   \<and> writable dead_buffer_state 1
   \<and> returned (waddch dead_buffer_state 1 10) = Some OK
   \<and> returned (waddch (state_after (waddch dead_buffer_state 1 10)) 1 65) = Some ERR
   \<and> va_wprintw dead_buffer_state 1 (Some [10, 65, 10, 66])
        = Some (OK, state_after (waddch dead_buffer_state 1 10))
   \<and> cursor_of (state_after (waddch dead_buffer_state 1 10)) 1 = Some (1, 0)
   \<and> returned (wprintw dead_buffer_state 1 (Some [10, 65, 10, 66])) = Some OK
   \<and> returned (mvwprintw dead_buffer_state 1 3 4 (Some [10, 65, 10, 66])) = Some OK
   \<and> returned (printw dead_buffer_state (Some [10, 65, 10, 66])) = Some OK
   \<and> returned (mvprintw dead_buffer_state 3 4 (Some [10, 65, 10, 66])) = Some OK"
proof -
  let ?s1 = "dead_buffer_state\<lparr>wins := [1 \<mapsto> example_window\<lparr>w_cur := \<lparr>X = 0, Y = 1\<rparr>\<rparr>]\<rparr>"
  have f: "formats dead_buffer_state (Some [10, 65, 10, 66])"
    by (simp add: formats_def vsprintf_s_def example_defs)
  have wr: "writable dead_buffer_state 1" "writable dead_buffer_state (stdscr dead_buffer_state)"
    by (simp_all add: writable_def array_at_def example_defs)
  have n: "(1 :: win_ptr) \<noteq> NULL"
    by (simp add: NULL_def)
  have a1: "waddch dead_buffer_state 1 10 = Some (OK, ?s1)"
    by (simp add: waddch_def NULL_def example_defs)
  have a2: "waddch ?s1 1 65 = Some (ERR, ?s1)"
    by (simp add: waddch_def WriteConsoleOutput_def array_at_def NULL_def Let_def example_defs)
  have s1: "state_after (waddch dead_buffer_state 1 10) = ?s1"
    by (simp only: a1 state_after_def option.sel snd_conv)
  have pre: "written dead_buffer_state 1 [10] = Some ?s1"
    using a1 by simp
  have c: "cursor_of ?s1 1 = Some (1, 0)"
    by (simp add: cursor_of_def)
  have e: "ERR \<noteq> OK" "(65 :: chtype) \<noteq> 0"
    by (simp_all add: ERR_def OK_def)
  have t: "Some [10, 65, 10, 66] = Some ([10] @ 65 # [10, 66 :: chtype])"
    by simp
  note inst = printw_family_returns_OK [OF f wr(1), of 3 4]
  from inst have v: "va_wprintw dead_buffer_state 1 (Some [10, 65, 10, 66]) = Some (OK, ?s1)"
    using t pre a2 e by blast
  have "returned (waddch dead_buffer_state 1 10) = Some OK"
    and "returned (waddch ?s1 1 65) = Some ERR"
    by (simp_all only: a1 a2 returned_def option.map fst_conv)
  with inst v show ?thesis
    using f wr n c by (simp only: s1) simp
qed

text \<open>
  C10. For every window \<open>win\<close> and every (y, x) within the default window,
  \<^verbatim>\<open>mvwgetch(win, y, x)\<close> moves the cursor of \<^verbatim>\<open>stdscr\<close>, not of \<open>win\<close>: it is
  \<^verbatim>\<open>wgetch(win)\<close> run in the state that \<^verbatim>\<open>wmove(stdscr, y, x)\<close> leaves, in which the
  default window's cursor is (y, x) and, when \<open>win\<close> is not \<^verbatim>\<open>stdscr\<close>, the window
  \<open>win\<close> is as it was; and if the call returns, \<open>win\<close> is still as it was.
\<close>

theorem mvwgetch_moves_stdscr:
  assumes sw: "wins st (stdscr st) = Some sw"
    and inb: "0 \<le> sint y" "sint y < sint (Y (w_size sw))" "0 \<le> sint x" "sint x < sint (X (w_size sw))"
  shows "\<exists>st1. wmove st (stdscr st) y x = Some (OK, st1)
          \<and> mvwgetch st win y x = wgetch st1 win
          \<and> cursor_of st1 (stdscr st) = Some (sint y, sint x)
          \<and> (win \<noteq> stdscr st \<longrightarrow> wins st1 win = wins st win)
          \<and> (\<forall>r st'. win \<noteq> stdscr st \<and> mvwgetch st win y x = Some (r, st') \<longrightarrow> wins st' win = wins st win)"
proof -
  define st1 where "st1 = st\<lparr>wins := (wins st)(stdscr st \<mapsto> sw\<lparr>w_cur := \<lparr>X = to_SHORT x, Y = to_SHORT y\<rparr>\<rparr>)\<rparr>"
  from wmove_inside [OF sw inb]
  have mv: "wmove st (stdscr st) y x = Some (OK, st1)"
    and rd: "sint (to_SHORT y) = sint y" "sint (to_SHORT x) = sint x"
    by (simp_all add: st1_def)
  have cur: "cursor_of st1 (stdscr st) = Some (sint y, sint x)"
    using rd by (simp add: cursor_of_def st1_def)
  have eq: "mvwgetch st win y x = wgetch st1 win"
    using mv by (simp add: mvwgetch_def)
  have fr: "\<forall>v. v \<noteq> stdscr st \<longrightarrow> wins st1 v = wins st v" and s1: "stdscr st1 = stdscr st"
    by (simp_all add: st1_def)
  have "wins st' win = wins st win" if "win \<noteq> stdscr st" "mvwgetch st win y x = Some (r, st')" for r st'
    using wgetch_frame [of st1 win r st'] that eq fr s1 by simp
  then show ?thesis
    using mv eq cur fr by blast
qed

theorem mvwgetch_moves_stdscr_witness:
  "cursor_of key_waiting_state 1 = Some (0, 0)
   \<and> cursor_of key_waiting_state 2 = Some (2, 3)
   \<and> returned (mvwgetch key_waiting_state 2 5 7) = Some 97
   \<and> cursor_of (state_after (mvwgetch key_waiting_state 2 5 7)) 1 = Some (5, 7)
   \<and> cursor_of (state_after (mvwgetch key_waiting_state 2 5 7)) 2 = Some (2, 3)"
proof -
  have sw: "wins key_waiting_state (stdscr key_waiting_state) = Some example_window"
    by (simp add: example_defs)
  have inb: "0 \<le> sint (5 :: cint)" "sint (5 :: cint) < sint (Y (w_size example_window))"
    "0 \<le> sint (7 :: cint)" "sint (7 :: cint) < sint (X (w_size example_window))"
    by (simp_all add: example_defs)
  from mvwgetch_moves_stdscr [OF sw inb, of 2] obtain st1
    where "wmove key_waiting_state (stdscr key_waiting_state) 5 7 = Some (OK, st1)"
      and "mvwgetch key_waiting_state 2 5 7 = wgetch st1 2"
    by blast
  moreover have "cursor_of key_waiting_state 1 = Some (0, 0)"
    and "cursor_of key_waiting_state 2 = Some (2, 3)"
    by (simp_all add: cursor_of_def example_defs)
  moreover have "returned (mvwgetch key_waiting_state 2 5 7) = Some 97
   \<and> cursor_of (state_after (mvwgetch key_waiting_state 2 5 7)) 1 = Some (5, 7)
   \<and> cursor_of (state_after (mvwgetch key_waiting_state 2 5 7)) 2 = Some (2, 3)"
    by (simp add: returned_def state_after_def mvwgetch_def wmove_def wgetch_def echo_input_def
        kbhit_def is_key_down_def cursor_of_def to_SHORT_def
        KEY_EVENT_def WC_WKEYPAD_def WC_NODELAY_def WC_ECHO_def OK_def ERR_def example_defs)
  ultimately show ?thesis
    by simp
qed

end
